theory Spec2Isabelle
  imports Complex_Main
begin

section \<open>Shelly Plus Plug spot price illuminator: the script \<open>shelly/index.js\<close>\<close>

text \<open>
  The script runs single-threaded inside the device's script engine: one callback (timer
  tick, event, HTTP completion) at a time. Each function of the script is a function
  here from the state before to the state after; the calls it hands to the device
  (\<open>Shelly.call\<close>) are appended to the state's \<open>calls\<close>, in the order issued. What the
  script reads from the device (\<open>Shelly.getComponentConfig\<close>, \<open>Shelly.getComponentStatus\<close>)
  is the \<open>env\<close> argument. A fatal stop (\<open>die\<close>, or an uncaught TypeError / SyntaxError of
  the engine) is the \<open>Inl\<close> branch of a sum.

  Numbers of the script (prices, price floors, brightness values) are the reals they
  denote: the script only compares them, and comparison of finite doubles is exact.
  \<open>console.log\<close> output is not modelled.
\<close>

subsection \<open>Data\<close>

datatype fatal = Die string | TypeError | SyntaxError

text \<open>An entry of \<open>priceColorMap\<close>; \<open>shellyRGB\<close> is absent until \<open>checkConfig\<close> stores it.\<close>

record entry =
  fromPriceWithTax :: real
  color :: string
  onBrightness :: real
  offBrightness :: real
  shellyRGB :: "int list option"

definition priceColorMap :: "entry list" where
  "priceColorMap =
    [\<lparr>fromPriceWithTax = -1.0, color = ''purple'', onBrightness = 80, offBrightness = 10, shellyRGB = None\<rparr>,
     \<lparr>fromPriceWithTax = 0.00, color = ''green'', onBrightness = 80, offBrightness = 10, shellyRGB = None\<rparr>,
     \<lparr>fromPriceWithTax = 0.09, color = ''turquoise'', onBrightness = 50, offBrightness = 7, shellyRGB = None\<rparr>,
     \<lparr>fromPriceWithTax = 0.15, color = ''#FF4500'', onBrightness = 50, offBrightness = 10, shellyRGB = None\<rparr>,
     \<lparr>fromPriceWithTax = 0.25, color = ''red'', onBrightness = 50, offBrightness = 10, shellyRGB = None\<rparr>]"

definition spotHintaRegion :: string where
  "spotHintaRegion = ''FI''"

definition API_HOST :: string where
  "API_HOST = ''https://api.spot-hinta.fi''"

definition PRICE_URL :: string where
  "PRICE_URL = API_HOST @ ''/JustNow?region='' @ spotHintaRegion"

definition COLOR_NAMES :: "(string \<times> string) list" where
  "COLOR_NAMES = [
  (''aliceblue'', ''#F0F8FF''),
  (''antiquewhite'', ''#FAEBD7''),
  (''aqua'', ''#00FFFF''),
  (''aquamarine'', ''#7FFFD4''),
  (''azure'', ''#F0FFFF''),
  (''beige'', ''#F5F5DC''),
  (''bisque'', ''#FFE4C4''),
  (''black'', ''#000000''),
  (''blanchedalmond'', ''#FFEBCD''),
  (''blue'', ''#0000FF''),
  (''blueviolet'', ''#8A2BE2''),
  (''brown'', ''#A52A2A''),
  (''burlywood'', ''#DEB887''),
  (''cadetblue'', ''#5F9EA0''),
  (''chartreuse'', ''#7FFF00''),
  (''chocolate'', ''#D2691E''),
  (''coral'', ''#FF7F50''),
  (''cornflowerblue'', ''#6495ED''),
  (''cornsilk'', ''#FFF8DC''),
  (''crimson'', ''#DC143C''),
  (''cyan'', ''#00FFFF''),
  (''darkblue'', ''#00008B''),
  (''darkcyan'', ''#008B8B''),
  (''darkgoldenrod'', ''#B8860B''),
  (''darkgray'', ''#A9A9A9''),
  (''darkgreen'', ''#006400''),
  (''darkgrey'', ''#A9A9A9''),
  (''darkkhaki'', ''#BDB76B''),
  (''darkmagenta'', ''#8B008B''),
  (''darkolivegreen'', ''#556B2F''),
  (''darkorange'', ''#FF8C00''),
  (''darkorchid'', ''#9932CC''),
  (''darkred'', ''#8B0000''),
  (''darksalmon'', ''#E9967A''),
  (''darkseagreen'', ''#8FBC8F''),
  (''darkslateblue'', ''#483D8B''),
  (''darkslategray'', ''#2F4F4F''),
  (''darkslategrey'', ''#2F4F4F''),
  (''darkturquoise'', ''#00CED1''),
  (''darkviolet'', ''#9400D3''),
  (''deeppink'', ''#FF1493''),
  (''deepskyblue'', ''#00BFFF''),
  (''dimgray'', ''#696969''),
  (''dimgrey'', ''#696969''),
  (''dodgerblue'', ''#1E90FF''),
  (''firebrick'', ''#B22222''),
  (''floralwhite'', ''#FFFAF0''),
  (''forestgreen'', ''#228B22''),
  (''fuchsia'', ''#FF00FF''),
  (''gainsboro'', ''#DCDCDC''),
  (''ghostwhite'', ''#F8F8FF''),
  (''gold'', ''#FFD700''),
  (''goldenrod'', ''#DAA520''),
  (''gray'', ''#808080''),
  (''green'', ''#008000''),
  (''greenyellow'', ''#ADFF2F''),
  (''grey'', ''#808080''),
  (''honeydew'', ''#F0FFF0''),
  (''hotpink'', ''#FF69B4''),
  (''indianred'', ''#CD5C5C''),
  (''indigo'', ''#4B0082''),
  (''ivory'', ''#FFFFF0''),
  (''khaki'', ''#F0E68C''),
  (''lavender'', ''#E6E6FA''),
  (''lavenderblush'', ''#FFF0F5''),
  (''lawngreen'', ''#7CFC00''),
  (''lemonchiffon'', ''#FFFACD''),
  (''lightblue'', ''#ADD8E6''),
  (''lightcoral'', ''#F08080''),
  (''lightcyan'', ''#E0FFFF''),
  (''lightgoldenrodyellow'', ''#FAFAD2''),
  (''lightgray'', ''#D3D3D3''),
  (''lightgreen'', ''#90EE90''),
  (''lightgrey'', ''#D3D3D3''),
  (''lightpink'', ''#FFB6C1''),
  (''lightsalmon'', ''#FFA07A''),
  (''lightseagreen'', ''#20B2AA''),
  (''lightskyblue'', ''#87CEFA''),
  (''lightslategray'', ''#778899''),
  (''lightslategrey'', ''#778899''),
  (''lightsteelblue'', ''#B0C4DE''),
  (''lightyellow'', ''#FFFFE0''),
  (''lime'', ''#00FF00''),
  (''limegreen'', ''#32CD32''),
  (''linen'', ''#FAF0E6''),
  (''magenta'', ''#FF00FF''),
  (''maroon'', ''#800000''),
  (''mediumaquamarine'', ''#66CDAA''),
  (''mediumblue'', ''#0000CD''),
  (''mediumorchid'', ''#BA55D3''),
  (''mediumpurple'', ''#9370DB''),
  (''mediumseagreen'', ''#3CB371''),
  (''mediumslateblue'', ''#7B68EE''),
  (''mediumspringgreen'', ''#00FA9A''),
  (''mediumturquoise'', ''#48D1CC''),
  (''mediumvioletred'', ''#C71585''),
  (''midnightblue'', ''#191970''),
  (''mintcream'', ''#F5FFFA''),
  (''mistyrose'', ''#FFE4E1''),
  (''moccasin'', ''#FFE4B5''),
  (''navajowhite'', ''#FFDEAD''),
  (''navy'', ''#000080''),
  (''oldlace'', ''#FDF5E6''),
  (''olive'', ''#808000''),
  (''olivedrab'', ''#6B8E23''),
  (''orange'', ''#FFA500''),
  (''orangered'', ''#FF4500''),
  (''orchid'', ''#DA70D6''),
  (''palegoldenrod'', ''#EEE8AA''),
  (''palegreen'', ''#98FB98''),
  (''paleturquoise'', ''#AFEEEE''),
  (''palevioletred'', ''#DB7093''),
  (''papayawhip'', ''#FFEFD5''),
  (''peachpuff'', ''#FFDAB9''),
  (''peru'', ''#CD853F''),
  (''pink'', ''#FFC0CB''),
  (''plum'', ''#DDA0DD''),
  (''powderblue'', ''#B0E0E6''),
  (''purple'', ''#800080''),
  (''rebeccapurple'', ''#663399''),
  (''red'', ''#FF0000''),
  (''rosybrown'', ''#BC8F8F''),
  (''royalblue'', ''#4169E1''),
  (''saddlebrown'', ''#8B4513''),
  (''salmon'', ''#FA8072''),
  (''sandybrown'', ''#F4A460''),
  (''seagreen'', ''#2E8B57''),
  (''seashell'', ''#FFF5EE''),
  (''sienna'', ''#A0522D''),
  (''silver'', ''#C0C0C0''),
  (''skyblue'', ''#87CEEB''),
  (''slateblue'', ''#6A5ACD''),
  (''slategray'', ''#708090''),
  (''slategrey'', ''#708090''),
  (''snow'', ''#FFFAFA''),
  (''springgreen'', ''#00FF7F''),
  (''steelblue'', ''#4682B4''),
  (''tan'', ''#D2B48C''),
  (''teal'', ''#008080''),
  (''thistle'', ''#D8BFD8''),
  (''tomato'', ''#FF6347''),
  (''turquoise'', ''#40E0D0''),
  (''violet'', ''#EE82EE''),
  (''wheat'', ''#F5DEB3''),
  (''white'', ''#FFFFFF''),
  (''whitesmoke'', ''#F5F5F5''),
  (''yellow'', ''#FFFF00''),
  (''yellowgreen'', ''#9ACD32'')
  ]"

definition DEBUG :: bool where
  "DEBUG = False"

text \<open>The LED part of the \<open>plugs_ui\<close> component configuration that the script reads and writes:
  \<open>leds.mode\<close> and \<open>leds.colors["switch:0"].on / .off\<close>.\<close>

record led =
  rgb :: "int list option"
  brightness :: real

record ui_config =
  leds_mode :: string
  switch0_on :: led
  switch0_off :: led

text \<open>What the script reads from the device when a callback runs.\<close>

record env =
  plugs_ui :: ui_config
  cloud_enable :: bool
  sys_time :: string

text \<open>The two remote calls of the script: \<open>HTTP.GET\<close> with its url and timeout, and
  \<open>PLUGS_UI.SetConfig\<close> with the configuration written.\<close>

datatype call = HTTP_GET string nat | PLUGS_UI_SetConfig ui_config

record state =
  isConnected :: bool
  calls :: "call list"

text \<open>
  The values of the script engine that a parsed body can hold, and \<open>undefined\<close> (what
  reading an absent property gives). The script does one thing with such a value: compare
  it with a number, which converts it with the engine's \<open>ToNumber\<close>. For a string and for
  an array that conversion goes through the engine's own reading of a string as a number,
  which is no code of the script: the value carries what the engine makes of it (\<open>None\<close>
  for NaN). A plain object converts to NaN.
\<close>

datatype jsval =
    Undefined
  | Null
  | Bool bool
  | Num real
  | NaN
  | Str string "real option"
  | Arr "real option"
  | Obj

text \<open>The outcome of \<open>JSON.parse(response.body)\<close>: a SyntaxError, an object with its
  properties, or a value of which the script reads no property that it has.\<close>

datatype parsed = ParseFailure | Primitive jsval | Object "(string \<times> jsval) list"

record response =
  code :: int
  body :: parsed

text \<open>The \<open>info\<close> of an event, when it is an object: its \<open>component\<close> and \<open>event\<close>
  properties, \<open>None\<close> when the property is not a string. An event is its \<open>info\<close>, or
  \<open>None\<close> when it has none (an \<open>info\<close> of \<open>null\<close> is left out).\<close>

record info =
  component :: "string option"
  event :: "string option"

subsection \<open>Strings and hex digits\<close>

text \<open>\<open>s.at(i)\<close> of the script engine: the character code at \<open>i\<close>, \<open>undefined\<close> (here
  \<open>None\<close>) past the end.\<close>

definition str_at :: "string \<Rightarrow> nat \<Rightarrow> nat option" where
  "str_at s i = (if i < length s then Some (of_char (s ! i)) else None)"

text \<open>\<open>s.slice(a, b)\<close> for \<open>0 \<le> a \<le> b\<close>; both ends are clamped to the length.\<close>

definition slice :: "string \<Rightarrow> nat \<Rightarrow> nat \<Rightarrow> string" where
  "slice s a b = take (b - a) (drop a s)"

text \<open>Every comparison with \<open>undefined\<close> is false, so \<open>undefined\<close> reaches \<open>die\<close>.\<close>

definition hexCharToInt :: "nat option \<Rightarrow> fatal + nat" where
  "hexCharToInt hexChar =
    (case hexChar of
       None \<Rightarrow> Inl (Die ''PPI: invalid hex value, crash'')
     | Some c \<Rightarrow>
         if c > 96 \<and> c < 103 then Inr (10 + (c - 97))
         else if c > 64 \<and> c < 71 then Inr (10 + (c - 65))
         else if c > 47 \<and> c < 58 then Inr (c - 48)
         else Inl (Die ''PPI: invalid hex value, crash''))"

definition hexToInt :: "string \<Rightarrow> fatal + nat" where
  "hexToInt hex =
    (case hexCharToInt (str_at hex 0) of
       Inl e \<Rightarrow> Inl e
     | Inr hi \<Rightarrow>
        (case hexCharToInt (str_at hex 1) of
           Inl e \<Rightarrow> Inl e
         | Inr lo \<Rightarrow> Inr (16 * hi + lo)))"

text \<open>\<open>Math.round\<close>: the nearest integer, a tie going up.\<close>

definition Math_round :: "real \<Rightarrow> int" where
  "Math_round x = \<lfloor>x + 1 / 2\<rfloor>"

definition hexToShellyColorValue :: "string \<Rightarrow> fatal + int" where
  "hexToShellyColorValue hex =
    (case hexToInt hex of
       Inl e \<Rightarrow> Inl e
     | Inr n \<Rightarrow> Inr (Math_round (real n * 0.392156)))"

definition RGBStringToShellyValues :: "string \<Rightarrow> fatal + int list" where
  "RGBStringToShellyValues rgbString =
    (case hexToShellyColorValue (slice rgbString 1 3) of
       Inl e \<Rightarrow> Inl e
     | Inr r \<Rightarrow>
        (case hexToShellyColorValue (slice rgbString 3 5) of
           Inl e \<Rightarrow> Inl e
         | Inr g \<Rightarrow>
            (case hexToShellyColorValue (slice rgbString 5 7) of
               Inl e \<Rightarrow> Inl e
             | Inr b \<Rightarrow> Inr [r, g, b])))"

fun colorNameLoop :: "(string \<times> string) list \<Rightarrow> string \<Rightarrow> fatal + string" where
  "colorNameLoop [] name = Inl (Die (''PPI: color '' @ name @ '' not in color map - crash''))"
| "colorNameLoop ((n, v) # rest) name = (if n = name then Inr v else colorNameLoop rest name)"

definition colorNameToRGBString :: "string \<Rightarrow> fatal + string" where
  "colorNameToRGBString name = colorNameLoop COLOR_NAMES name"

definition brightnessInRange :: "real \<Rightarrow> bool" where
  "brightnessInRange b = (0 \<le> b \<and> 100 \<ge> b)"

subsection \<open>The light\<close>

definition configureLight :: "env \<Rightarrow> int list option \<Rightarrow> real \<Rightarrow> real \<Rightarrow> state \<Rightarrow> state" where
  "configureLight env shellyRGBv onB offB s =
    (let onColorConfig = \<lparr>rgb = shellyRGBv, brightness = onB\<rparr>;
         uiConfig = plugs_ui env
     in if leds_mode uiConfig = ''switch''
        then s\<lparr>calls := calls s @
               [PLUGS_UI_SetConfig
                 (uiConfig\<lparr>switch0_on := onColorConfig,
                            switch0_off := onColorConfig\<lparr>brightness := offB\<rparr>\<rparr>)]\<rparr>
        else s)"

definition connected_st :: "state \<Rightarrow> state" where
  "connected_st s = s\<lparr>isConnected := True\<rparr>"

definition disConnected :: "env \<Rightarrow> state \<Rightarrow> fatal + state" where
  "disConnected env s =
    (case colorNameToRGBString ''white'' of
       Inl e \<Rightarrow> Inl e
     | Inr w \<Rightarrow>
        (case RGBStringToShellyValues w of
           Inl e \<Rightarrow> Inl e
         | Inr v \<Rightarrow> Inr ((configureLight env (Some v) 50 10 s)\<lparr>isConnected := False\<rparr>)))"

subsection \<open>The response handler\<close>

text \<open>\<open>ToNumber\<close> of the engine; \<open>None\<close> is NaN.\<close>

fun ToNumber :: "jsval \<Rightarrow> real option" where
  "ToNumber Undefined = None"
| "ToNumber Null = Some 0"
| "ToNumber (Bool b) = Some (if b then 1 else 0)"
| "ToNumber (Num x) = Some x"
| "ToNumber NaN = None"
| "ToNumber (Str t n) = n"
| "ToNumber (Arr n) = n"
| "ToNumber Obj = None"

text \<open>\<open>v >= x\<close> with a number on the right: false when the left side converts to NaN.\<close>

definition js_ge :: "jsval \<Rightarrow> real \<Rightarrow> bool" where
  "js_ge v x = (case ToNumber v of None \<Rightarrow> False | Some y \<Rightarrow> y \<ge> x)"

text \<open>\<open>price.PriceWithTax\<close>: a TypeError on \<open>null\<close> and \<open>undefined\<close>, \<open>undefined\<close> on
  any other value that is not an object with the property.\<close>

fun PriceWithTax :: "parsed \<Rightarrow> fatal + jsval" where
  "PriceWithTax ParseFailure = Inl SyntaxError"
| "PriceWithTax (Primitive Null) = Inl TypeError"
| "PriceWithTax (Primitive Undefined) = Inl TypeError"
| "PriceWithTax (Primitive v) = Inr Undefined"
| "PriceWithTax (Object kvs) =
     Inr (case map_of kvs ''PriceWithTax'' of None \<Rightarrow> Undefined | Some v \<Rightarrow> v)"

text \<open>The loop \<open>for (i = length - 1; i >= 0; i--)\<close> of \<open>handleResponse\<close>, with the counter
  one above the index. Each round reads \<open>price.PriceWithTax\<close> and compares it with the
  floor of entry \<open>i\<close>. The result is the entry found, \<open>None\<close> when the loop runs out.\<close>

fun priceLoop :: "entry list \<Rightarrow> parsed \<Rightarrow> nat \<Rightarrow> fatal + entry option" where
  "priceLoop m price 0 = Inr None"
| "priceLoop m price (Suc i) =
     (case PriceWithTax price of
        Inl e \<Rightarrow> Inl e
      | Inr v \<Rightarrow>
          if js_ge v (fromPriceWithTax (m ! i)) then Inr (Some (m ! i))
          else priceLoop m price i)"

text \<open>The \<open>else\<close> branch of \<open>handleResponse\<close>, and the \<open>return false\<close> after it.\<close>

definition invalidResponse :: "env \<Rightarrow> state \<Rightarrow> fatal + bool \<times> state" where
  "invalidResponse env s =
    (if isConnected s = False
     then (case disConnected env s of Inl e \<Rightarrow> Inl e | Inr s' \<Rightarrow> Inr (False, s'))
     else Inr (False, s))"

definition handleResponse ::
  "env \<Rightarrow> entry list \<Rightarrow> response option \<Rightarrow> state \<Rightarrow> fatal + bool \<times> state" where
  "handleResponse env m r s =
    (case r of
       None \<Rightarrow> invalidResponse env s
     | Some resp \<Rightarrow>
        if code resp = 200 then
          (let s1 = (if isConnected s = False then connected_st s else s);
               price = body resp
           in if price = ParseFailure then Inl SyntaxError
              else (case priceLoop m price (length m) of
                      Inl e \<Rightarrow> Inl e
                    | Inr (Some e) \<Rightarrow>
                        Inr (True, configureLight env (shellyRGB e) (onBrightness e)
                                     (offBrightness e) s1)
                    | Inr None \<Rightarrow> Inl (Die ''PPI: price not found in color map, crash.'')))
        else invalidResponse env s)"

subsection \<open>The timer\<close>

definition isQuarterOfAnHour :: "env \<Rightarrow> fatal + bool" where
  "isQuarterOfAnHour env =
    (let minStr = slice (sys_time env) 3 5 in
     case hexCharToInt (str_at minStr 0) of
       Inl e \<Rightarrow> Inl e
     | Inr a \<Rightarrow>
        (case hexCharToInt (str_at minStr 1) of
           Inl e \<Rightarrow> Inl e
         | Inr b \<Rightarrow> Inr ((10 * a + b) mod 15 = 0)))"

definition tick :: "env \<Rightarrow> state \<Rightarrow> fatal + state" where
  "tick env s =
    (let get = s\<lparr>calls := calls s @ [HTTP_GET PRICE_URL (if DEBUG then 2 else 10)]\<rparr> in
     if isConnected s = False then Inr get
     else (case (if DEBUG then Inr True else isQuarterOfAnHour env) of
             Inl e \<Rightarrow> Inl e
           | Inr q \<Rightarrow> Inr (if q then get else s)))"

subsection \<open>Events\<close>

definition handleEvents :: "env \<Rightarrow> info option \<Rightarrow> state \<Rightarrow> fatal + state" where
  "handleEvents env ev s =
    (case ev of
       None \<Rightarrow> Inr s
     | Some i \<Rightarrow>
        (case (component i, event i) of
           (Some c, Some e) \<Rightarrow>
             (case (if cloud_enable env
                    then (if c = ''cloud'' \<and> e = ''connected'' then tick env s else Inr s)
                    else (if c = ''wifi'' \<and> e = ''sta_ip_acquired'' then tick env s else Inr s)) of
                Inl err \<Rightarrow> Inl err
              | Inr s1 \<Rightarrow>
                  if (c = ''wifi'' \<and> e = ''sta_disconnected'') \<or>
                     (c = ''cloud'' \<and> e = ''disconnected'')
                  then disConnected env s1
                  else Inr s1)
         | _ \<Rightarrow> Inr s))"

subsection \<open>Validation of the price map\<close>

text \<open>The three loops of \<open>checkConfig\<close>, each over the entries in order.\<close>

fun orderLoop :: "entry list \<Rightarrow> fatal + unit" where
  "orderLoop (a # b # rest) =
     (if fromPriceWithTax a \<ge> fromPriceWithTax b
      then Inl (Die ''PPI: Price map order failure, crash'')
      else orderLoop (b # rest))"
| "orderLoop _ = Inr ()"

fun brightnessLoop :: "entry list \<Rightarrow> fatal + unit" where
  "brightnessLoop [] = Inr ()"
| "brightnessLoop (e # rest) =
     (if \<not> brightnessInRange (onBrightness e)
      then Inl (Die (''PPI: ON brightness ('' @ color e @ '') out of range, crash''))
      else if \<not> brightnessInRange (offBrightness e)
      then Inl (Die (''PPI: OFF brightness ('' @ color e @ '') out of range, crashing''))
      else brightnessLoop rest)"

definition precalc :: "entry \<Rightarrow> fatal + entry" where
  "precalc e =
    (case (if take 1 (color e) = ''#'' then Inr (color e) else colorNameToRGBString (color e)) of
       Inl err \<Rightarrow> Inl err
     | Inr rgbString \<Rightarrow>
        (case RGBStringToShellyValues rgbString of
           Inl err \<Rightarrow> Inl err
         | Inr v \<Rightarrow> Inr (e\<lparr>shellyRGB := Some v\<rparr>)))"

fun precalcLoop :: "entry list \<Rightarrow> fatal + entry list" where
  "precalcLoop [] = Inr []"
| "precalcLoop (e # rest) =
     (case precalc e of
        Inl err \<Rightarrow> Inl err
      | Inr e' \<Rightarrow>
         (case precalcLoop rest of
            Inl err \<Rightarrow> Inl err
          | Inr rest' \<Rightarrow> Inr (e' # rest')))"

text \<open>\<open>priceColorMap[0]\<close> of an empty map is \<open>undefined\<close>, and reading its property a
  TypeError.\<close>

definition checkConfig :: "env \<Rightarrow> entry list \<Rightarrow> state \<Rightarrow> fatal + entry list \<times> state" where
  "checkConfig env m s =
    (let uiConfig = plugs_ui env;
         s1 = (if leds_mode uiConfig \<noteq> ''switch''
               then s\<lparr>calls := calls s @ [PLUGS_UI_SetConfig (uiConfig\<lparr>leds_mode := ''switch''\<rparr>)]\<rparr>
               else s)
     in case m of
          [] \<Rightarrow> Inl TypeError
        | first # _ \<Rightarrow>
            if fromPriceWithTax first > 0
            then Inl (Die ''PPI: First price map entry must be <= 0, crash'')
            else (case orderLoop m of
                    Inl e \<Rightarrow> Inl e
                  | Inr _ \<Rightarrow>
                     (case brightnessLoop m of
                        Inl e \<Rightarrow> Inl e
                      | Inr _ \<Rightarrow>
                         (case precalcLoop m of
                            Inl e \<Rightarrow> Inl e
                          | Inr m' \<Rightarrow> Inr (m', s1)))))"

subsection \<open>The script as a whole\<close>

text \<open>The top level of the script: \<open>checkConfig()\<close>, \<open>disConnected()\<close>, the first \<open>tick()\<close>.
  The result is the price map with its colours stored, and the state when the top level
  returns.\<close>

definition startup :: "env \<Rightarrow> entry list \<Rightarrow> fatal + entry list \<times> state" where
  "startup env m =
    (case checkConfig env m \<lparr>isConnected = False, calls = []\<rparr> of
       Inl e \<Rightarrow> Inl e
     | Inr (m', s0) \<Rightarrow>
        (case disConnected env s0 of
           Inl e \<Rightarrow> Inl e
         | Inr s1 \<Rightarrow>
            (case tick env s1 of
               Inl e \<Rightarrow> Inl e
             | Inr s2 \<Rightarrow> Inr (m', s2))))"

text \<open>
  The callbacks the engine runs afterwards: the timer, an event, the completion of an
  \<open>HTTP.GET\<close>. The system state is the script's state and the number of completions
  delivered so far; the requests in flight are those issued and not yet completed. A
  completion is delivered only for a request in flight.
\<close>

datatype input = TimerTick | Notification "info option" | FetchDone "response option"

record sys =
  st :: state
  completed :: nat

fun is_HTTP_GET :: "call \<Rightarrow> bool" where
  "is_HTTP_GET (HTTP_GET u t) = True"
| "is_HTTP_GET (PLUGS_UI_SetConfig c) = False"

fun is_SetConfig :: "call \<Rightarrow> bool" where
  "is_SetConfig (HTTP_GET u t) = False"
| "is_SetConfig (PLUGS_UI_SetConfig c) = True"

definition fetches :: "state \<Rightarrow> nat" where
  "fetches s = length (filter is_HTTP_GET (calls s))"

definition in_flight :: "sys \<Rightarrow> nat" where
  "in_flight c = fetches (st c) - completed c"

definition step :: "entry list \<Rightarrow> env \<Rightarrow> input \<Rightarrow> sys \<Rightarrow> fatal + sys" where
  "step m env inp c =
    (case inp of
       TimerTick \<Rightarrow>
         (case tick env (st c) of Inl e \<Rightarrow> Inl e | Inr s' \<Rightarrow> Inr (c\<lparr>st := s'\<rparr>))
     | Notification ev \<Rightarrow>
         (case handleEvents env ev (st c) of Inl e \<Rightarrow> Inl e | Inr s' \<Rightarrow> Inr (c\<lparr>st := s'\<rparr>))
     | FetchDone r \<Rightarrow>
         if in_flight c = 0 then Inr c
         else (case handleResponse env m r (st c) of
                 Inl e \<Rightarrow> Inl e
               | Inr (b, s') \<Rightarrow> Inr \<lparr>st = s', completed = completed c + 1\<rparr>))"

fun run :: "entry list \<Rightarrow> (env \<times> input) list \<Rightarrow> sys \<Rightarrow> fatal + sys" where
  "run m [] c = Inr c"
| "run m ((env, inp) # rest) c =
     (case step m env inp c of Inl e \<Rightarrow> Inl e | Inr c' \<Rightarrow> run m rest c')"

subsection \<open>Properties of a configuration\<close>

text \<open>A hex digit: \<open>0\<close> to \<open>9\<close>, \<open>A\<close> to \<open>F\<close>, \<open>a\<close> to \<open>f\<close>, by character code.\<close>

definition hexDigit :: "char \<Rightarrow> bool" where
  "hexDigit c =
    (let n = (of_char c :: nat)
     in (48 \<le> n \<and> n \<le> 57) \<or> (65 \<le> n \<and> n \<le> 70) \<or> (97 \<le> n \<and> n \<le> 102))"

text \<open>A well-formed hex colour: the marker \<open>#\<close> and exactly six hex digits.\<close>

definition wellFormedHex :: "string \<Rightarrow> bool" where
  "wellFormedHex s = (length s = 7 \<and> take 1 s = ''#'' \<and> list_all hexDigit (drop 1 s))"

text \<open>What \<open>RGBStringToShellyValues\<close> reads: the six characters after the first.\<close>

definition hexAccepted :: "string \<Rightarrow> bool" where
  "hexAccepted s = (7 \<le> length s \<and> list_all hexDigit (take 6 (drop 1 s)))"

definition knownColor :: "string \<Rightarrow> bool" where
  "knownColor name = (map_of COLOR_NAMES name \<noteq> None)"

definition colorAccepted :: "string \<Rightarrow> bool" where
  "colorAccepted c = (if take 1 c = ''#'' then hexAccepted c else knownColor c)"

definition validFloors :: "entry list \<Rightarrow> bool" where
  "validFloors m =
    (m \<noteq> [] \<and> fromPriceWithTax (hd m) \<le> 0 \<and> sorted_wrt (<) (map fromPriceWithTax m))"

definition validBrightness :: "entry list \<Rightarrow> bool" where
  "validBrightness m =
    list_all (\<lambda>e. 0 \<le> onBrightness e \<and> onBrightness e \<le> 100 \<and>
                  0 \<le> offBrightness e \<and> offBrightness e \<le> 100) m"

subsection \<open>Example inputs\<close>

text \<open>A device in \<open>switch\<close> mode with the cloud enabled, at seven minutes past noon, and
  the state in which the script starts.\<close>

definition exampleEnv :: env where
  "exampleEnv =
    \<lparr>plugs_ui = \<lparr>leds_mode = ''switch'',
                  switch0_on = \<lparr>rgb = None, brightness = 0\<rparr>,
                  switch0_off = \<lparr>rgb = None, brightness = 0\<rparr>\<rparr>,
     cloud_enable = True,
     sys_time = ''12:07''\<rparr>"

definition initialState :: state where
  "initialState = \<lparr>isConnected = False, calls = []\<rparr>"

text \<open>The same device with its LED mode set to \<open>power\<close>.\<close>

definition powerEnv :: env where
  "powerEnv = exampleEnv\<lparr>plugs_ui := (plugs_ui exampleEnv)\<lparr>leds_mode := ''power''\<rparr>\<rparr>"

text \<open>An entry as the configuration writes it, before \<open>checkConfig\<close> has stored its colour.\<close>

definition configEntry :: "real \<Rightarrow> string \<Rightarrow> real \<Rightarrow> real \<Rightarrow> entry" where
  "configEntry f c onB offB =
    \<lparr>fromPriceWithTax = f, color = c, onBrightness = onB, offBrightness = offB,
     shellyRGB = None\<rparr>"

text \<open>A price map with the floors -1, 0 and 0.09 (the first three entries of
  \<open>priceColorMap\<close>), as configured and as \<open>checkConfig\<close> leaves it.\<close>

definition exampleMap :: "entry list" where
  "exampleMap =
    [configEntry (-1) ''purple'' 80 10,
     configEntry 0 ''green'' 80 10,
     configEntry 0.09 ''turquoise'' 50 7]"

definition exampleMapChecked :: "entry list" where
  "exampleMapChecked =
    [(configEntry (-1) ''purple'' 80 10)\<lparr>shellyRGB := Some [50, 0, 50]\<rparr>,
     (configEntry 0 ''green'' 80 10)\<lparr>shellyRGB := Some [0, 50, 0]\<rparr>,
     (configEntry 0.09 ''turquoise'' 50 7)\<lparr>shellyRGB := Some [25, 88, 82]\<rparr>]"

text \<open>A response with status 200 whose body is an object holding \<open>PriceWithTax\<close>.\<close>

definition priceResponse :: "jsval \<Rightarrow> response" where
  "priceResponse v = \<lparr>code = 200, body = Object [(''Rank'', Num 3), (''PriceWithTax'', v)]\<rparr>"

text \<open>\<open>priceColorMap\<close> as \<open>checkConfig\<close> leaves it.\<close>

definition priceColorMapChecked :: "entry list" where
  "priceColorMapChecked =
    map (\<lambda>(e, v). e\<lparr>shellyRGB := Some v\<rparr>)
      (zip priceColorMap [[50, 0, 50], [0, 50, 0], [25, 88, 82], [100, 27, 0], [100, 0, 0]])"

subsection \<open>Time, events and runs\<close>

text \<open>The device's time of day \<open>HH:MM\<close> for hour \<open>h\<close> and minute \<open>mi\<close>.\<close>

definition digit :: "nat \<Rightarrow> char" where
  "digit d = char_of (48 + d)"

definition clock :: "nat \<Rightarrow> nat \<Rightarrow> string" where
  "clock h mi = [digit (h div 10), digit (h mod 10), CHR '':'', digit (mi div 10), digit (mi mod 10)]"

text \<open>A connect event: the cloud's \<open>connected\<close> when the cloud is enabled, the wifi's
  \<open>sta_ip_acquired\<close> otherwise. A disconnect event: the wifi's \<open>sta_disconnected\<close> or the
  cloud's \<open>disconnected\<close>.\<close>

definition connectEvent :: "env \<Rightarrow> info \<Rightarrow> bool" where
  "connectEvent env i =
    (if cloud_enable env
     then component i = Some ''cloud'' \<and> event i = Some ''connected''
     else component i = Some ''wifi'' \<and> event i = Some ''sta_ip_acquired'')"

definition disconnectEvent :: "info \<Rightarrow> bool" where
  "disconnectEvent i =
    ((component i = Some ''wifi'' \<and> event i = Some ''sta_disconnected'') \<or>
     (component i = Some ''cloud'' \<and> event i = Some ''disconnected''))"

text \<open>A fetch that fails (no response) or returns a status other than 200.\<close>

definition fetchFailed :: "response option \<Rightarrow> bool" where
  "fetchFailed r = (case r of None \<Rightarrow> True | Some resp \<Rightarrow> code resp \<noteq> 200)"

text \<open>The state with one more \<open>HTTP.GET\<close> issued.\<close>

definition withFetch :: "state \<Rightarrow> state" where
  "withFetch s = s\<lparr>calls := calls s @ [HTTP_GET PRICE_URL 10]\<rparr>"

text \<open>The calls that write the LED configuration.\<close>

definition configWrites :: "state \<Rightarrow> call list" where
  "configWrites s = filter is_SetConfig (calls s)"

text \<open>The system states a run of the script can be in: the one the top level leaves, and
  those a callback leads to.\<close>

inductive reachable :: "entry list \<Rightarrow> sys \<Rightarrow> bool" where
  top: "startup env m0 = Inr (m, s) \<Longrightarrow> reachable m \<lparr>st = s, completed = 0\<rparr>"
| callback: "reachable m c \<Longrightarrow> step m env inp c = Inr c' \<Longrightarrow> reachable m c'"

text \<open>The example device after the top level of the script has run with \<open>priceColorMap\<close>:
  the white light written, one fetch issued.\<close>

definition startState :: state where
  "startState =
    withFetch ((configureLight exampleEnv (Some [100, 100, 100]) 50 10 initialState)
                 \<lparr>isConnected := False\<rparr>)"

text \<open>And after that fetch has returned the price 0.05.\<close>

definition onlineState :: state where
  "onlineState = configureLight exampleEnv (Some [0, 50, 0]) 80 10 (connected_st startState)"

definition cloudConnected :: info where
  "cloudConnected = \<lparr>component = Some ''cloud'', event = Some ''connected''\<rparr>"

section \<open>Properties\<close>

subsection \<open>Colour conversion\<close>

lemma channel_table:
  "\<forall>x \<in> set [0..<256].
     (784312 * int x + 1000000) div 2000000 = (40 * int x + 51) div 102 \<and>
     1000000 * ((40 * int x + 51) div 102) - 499000 \<le> 392156 * int x \<and>
     392156 * int x < 1000000 * ((40 * int x + 51) div 102) + 499000"
  by code_simp

lemma Math_round_scaled:
  "Math_round (real x * 0.392156) = (784312 * int x + 1000000) div 2000000"
proof -
  have "real x * 0.392156 + 1 / 2 = real_of_int (784312 * int x + 1000000) / real_of_int 2000000"
    by simp
  then show ?thesis
    unfolding Math_round_def by (simp only: floor_divide_of_int_eq)
qed

lemma round_exact:
  "round (real x * 100 / 255) = (40 * int x + 51) div 102"
proof -
  have "real x * 100 / 255 + 1 / 2 = real_of_int (40 * int x + 51) / real_of_int 102"
    by simp
  then show ?thesis
    unfolding round_def by (simp only: floor_divide_of_int_eq)
qed

lemma channel_agree:
  assumes "x \<le> 255"
  shows "Math_round (real x * 0.392156) = round (real x * 100 / 255)"
proof -
  from assms have "x \<in> set [0..<256]" by simp
  with channel_table
  have "(784312 * int x + 1000000) div 2000000 = (40 * int x + 51) div 102"
    by blast
  then show ?thesis
    by (simp only: Math_round_scaled round_exact)
qed

text \<open>The same result for any number within a thousandth of the product, which covers
  the product as the engine computes it in double precision.\<close>

lemma channel_agree_near:
  assumes "x \<le> 255" and "\<bar>y - real x * 0.392156\<bar> \<le> 1 / 1000"
  shows "Math_round y = round (real x * 100 / 255)"
proof -
  define k where "k = (40 * int x + 51) div 102"
  from assms(1) have "x \<in> set [0..<256]" by simp
  with channel_table
  have lo: "1000000 * k - 499000 \<le> 392156 * int x"
    and hi: "392156 * int x < 1000000 * k + 499000"
    unfolding k_def by blast+
  from lo have "real_of_int (1000000 * k - 499000) \<le> real_of_int (392156 * int x)"
    by (simp only: of_int_le_iff)
  then have lo': "real_of_int k - 499 / 1000 \<le> real x * 0.392156" by simp
  from hi have "real_of_int (392156 * int x) < real_of_int (1000000 * k + 499000)"
    by (simp only: of_int_less_iff)
  then have hi': "real x * 0.392156 < real_of_int k + 499 / 1000" by simp
  from assms(2) lo' hi' have "real_of_int k \<le> y + 1 / 2" "y + 1 / 2 < real_of_int k + 1"
    by linarith+
  then have "\<lfloor>y + 1 / 2\<rfloor> = k" by (rule floor_unique)
  then show ?thesis
    by (simp only: Math_round_def round_exact k_def)
qed

lemma hexCharToInt_bound: "hexCharToInt c = Inr n \<Longrightarrow> n \<le> 15"
  by (auto simp: hexCharToInt_def split: option.splits if_splits)

lemma hexToInt_bound: "hexToInt hex = Inr x \<Longrightarrow> x \<le> 255"
  by (auto simp: hexToInt_def split: sum.splits dest!: hexCharToInt_bound)

text \<open>
  C4. For every channel value \<open>y\<close> in 0..255, \<open>Math.round(y * 0.392156)\<close> is \<open>y * 100 / 255\<close>
  rounded to the nearest integer; whenever \<open>hexToInt\<close> returns a value \<open>x\<close>, it is at most
  255 and \<open>hexToShellyColorValue\<close> returns that rounding of \<open>x\<close> (it does not fail); and the
  conversion maps \<open>#FFFFFF\<close> to \<open>[100,100,100]\<close>, \<open>#000000\<close> to \<open>[0,0,0]\<close> and \<open>#A300FF\<close> to
  \<open>[64,0,100]\<close>.
\<close>

theorem hexToShellyColorValue_rounds:
  "(y \<le> 255 \<longrightarrow> Math_round (real y * 0.392156) = round (real y * 100 / 255)) \<and>
   (hexToInt hex = Inr x \<longrightarrow>
      x \<le> 255 \<and> hexToShellyColorValue hex = Inr (round (real x * 100 / 255))) \<and>
   RGBStringToShellyValues ''#FFFFFF'' = Inr [100, 100, 100] \<and>
   RGBStringToShellyValues ''#000000'' = Inr [0, 0, 0] \<and>
   RGBStringToShellyValues ''#A300FF'' = Inr [64, 0, 100]"
proof (intro conjI impI)
  assume "y \<le> 255"
  then show "Math_round (real y * 0.392156) = round (real y * 100 / 255)"
    by (rule channel_agree)
next
  assume h: "hexToInt hex = Inr x"
  then show "x \<le> 255" by (rule hexToInt_bound)
  then have "Math_round (real x * 0.392156) = round (real x * 100 / 255)"
    by (rule channel_agree)
  with h show "hexToShellyColorValue hex = Inr (round (real x * 100 / 255))"
    by (simp add: hexToShellyColorValue_def)
next
  show "RGBStringToShellyValues ''#FFFFFF'' = Inr [100, 100, 100]"
    by (simp add: RGBStringToShellyValues_def hexToShellyColorValue_def hexToInt_def
        hexCharToInt_def str_at_def slice_def Math_round_def)
next
  show "RGBStringToShellyValues ''#000000'' = Inr [0, 0, 0]"
    by (simp add: RGBStringToShellyValues_def hexToShellyColorValue_def hexToInt_def
        hexCharToInt_def str_at_def slice_def Math_round_def)
next
  show "RGBStringToShellyValues ''#A300FF'' = Inr [64, 0, 100]"
    by (simp add: RGBStringToShellyValues_def hexToShellyColorValue_def hexToInt_def
        hexCharToInt_def str_at_def slice_def Math_round_def)
qed

theorem hexToShellyColorValue_rounds_witness:
  "(163::nat) \<le> 255 \<and> Math_round (real (163::nat) * 0.392156) = 64 \<and>
   hexToInt ''A3'' = Inr 163 \<and> hexToShellyColorValue ''A3'' = Inr 64"
proof -
  have h: "hexToInt ''A3'' = Inr 163"
    by (simp add: hexToInt_def hexCharToInt_def str_at_def)
  have r: "round (real (163::nat) * 100 / 255) = 64"
    by (simp add: round_def)
  show ?thesis
    using hexToShellyColorValue_rounds [of 163 "''A3''" 163] h r by simp
qed

subsection \<open>Which colour tokens convert\<close>

lemma hexCharToInt_isl: "isl (hexCharToInt (Some (of_char c))) \<longleftrightarrow> \<not> hexDigit c"
  by (auto simp: hexCharToInt_def hexDigit_def Let_def)

lemma hexCharToInt_None: "isl (hexCharToInt None)"
  by (simp add: hexCharToInt_def)

lemma hexToInt_isl:
  "isl (hexToInt s) \<longleftrightarrow> \<not> (2 \<le> length s \<and> hexDigit (s ! 0) \<and> hexDigit (s ! 1))"
proof -
  have a: "isl (hexCharToInt (str_at s i)) \<longleftrightarrow> \<not> (i < length s \<and> hexDigit (s ! i))" for i
    by (simp add: str_at_def hexCharToInt_isl hexCharToInt_None)
  have "isl (hexToInt s) \<longleftrightarrow> isl (hexCharToInt (str_at s 0)) \<or> isl (hexCharToInt (str_at s 1))"
    by (auto simp: hexToInt_def split: sum.splits)
  also have "\<dots> \<longleftrightarrow> \<not> (2 \<le> length s \<and> hexDigit (s ! 0) \<and> hexDigit (s ! 1))"
    by (simp only: a) auto
  finally show ?thesis .
qed

lemma hexToShellyColorValue_isl: "isl (hexToShellyColorValue s) = isl (hexToInt s)"
  by (simp add: hexToShellyColorValue_def split: sum.splits)

lemma hexToInt_slice_isl:
  "isl (hexToInt (slice s a b)) \<longleftrightarrow>
     \<not> (a + 2 \<le> b \<and> a + 2 \<le> length s \<and> hexDigit (s ! a) \<and> hexDigit (s ! Suc a))"
  by (auto simp: hexToInt_isl slice_def)

lemma RGBStringToShellyValues_isl:
  "isl (RGBStringToShellyValues s) \<longleftrightarrow> \<not> hexAccepted s"
proof -
  have "isl (RGBStringToShellyValues s) \<longleftrightarrow>
          isl (hexToInt (slice s 1 3)) \<or> isl (hexToInt (slice s 3 5)) \<or>
          isl (hexToInt (slice s 5 7))"
    by (auto simp: RGBStringToShellyValues_def hexToShellyColorValue_def split: sum.splits)
  also have "\<dots> \<longleftrightarrow> \<not> (7 \<le> length s \<and> hexDigit (s ! 1) \<and> hexDigit (s ! 2) \<and> hexDigit (s ! 3)
        \<and> hexDigit (s ! 4) \<and> hexDigit (s ! 5) \<and> hexDigit (s ! 6))"
  proof -
    have h1: "isl (hexToInt (slice s 1 3)) \<longleftrightarrow> \<not> (3 \<le> length s \<and> hexDigit (s ! 1) \<and> hexDigit (s ! 2))"
      using hexToInt_slice_isl [of s 1 3] by (simp add: numeral_2_eq_2 numeral_3_eq_3)
    have h2: "isl (hexToInt (slice s 3 5)) \<longleftrightarrow> \<not> (5 \<le> length s \<and> hexDigit (s ! 3) \<and> hexDigit (s ! 4))"
      using hexToInt_slice_isl [of s 3 5] by simp
    have h3: "isl (hexToInt (slice s 5 7)) \<longleftrightarrow> \<not> (7 \<le> length s \<and> hexDigit (s ! 5) \<and> hexDigit (s ! 6))"
      using hexToInt_slice_isl [of s 5 7] by simp
    show ?thesis
      unfolding h1 h2 h3 by auto
  qed
  also have "\<dots> \<longleftrightarrow> \<not> hexAccepted s"
  proof (cases "7 \<le> length s")
    case False
    then show ?thesis by (simp add: hexAccepted_def)
  next
    case True
    then have "list_all hexDigit (take 6 (drop 1 s)) \<longleftrightarrow> (\<forall>i<6. hexDigit (s ! Suc i))"
      by (simp add: list_all_length)
    also have "\<dots> \<longleftrightarrow> hexDigit (s ! 1) \<and> hexDigit (s ! 2) \<and> hexDigit (s ! 3)
        \<and> hexDigit (s ! 4) \<and> hexDigit (s ! 5) \<and> hexDigit (s ! 6)"
      by (simp add: eval_nat_numeral All_less_Suc conj_ac)
    finally show ?thesis
      using True by (simp add: hexAccepted_def)
  qed
  finally show ?thesis .
qed

lemma COLOR_NAMES_hex: "list_all (\<lambda>p. hexAccepted (snd p)) COLOR_NAMES"
  by code_simp

lemma colorNameLoop_map_of:
  "colorNameLoop xs name =
    (case map_of xs name of
       None \<Rightarrow> Inl (Die (''PPI: color '' @ name @ '' not in color map - crash''))
     | Some v \<Rightarrow> Inr v)"
  by (induction xs) auto

lemma colorNameToRGBString_isl: "isl (colorNameToRGBString name) \<longleftrightarrow> \<not> knownColor name"
  by (simp add: colorNameToRGBString_def colorNameLoop_map_of knownColor_def split: option.splits)

lemma colorNameToRGBString_hex:
  assumes "colorNameToRGBString name = Inr v"
  shows "hexAccepted v"
proof -
  from assms have "map_of COLOR_NAMES name = Some v"
    by (simp add: colorNameToRGBString_def colorNameLoop_map_of split: option.splits)
  then have "(name, v) \<in> set COLOR_NAMES"
    by (rule map_of_SomeD)
  with COLOR_NAMES_hex show ?thesis
    by (auto simp: list_all_iff)
qed

subsection \<open>The loops of \<open>checkConfig\<close>\<close>

lemma precalc_isl: "isl (precalc e) \<longleftrightarrow> \<not> colorAccepted (color e)"
proof (cases "take 1 (color e) = ''#''")
  case True
  then have "isl (precalc e) = isl (RGBStringToShellyValues (color e))"
    by (simp add: precalc_def split: sum.splits)
  with True show ?thesis
    by (simp add: RGBStringToShellyValues_isl colorAccepted_def)
next
  case False
  show ?thesis
  proof (cases "colorNameToRGBString (color e)")
    case (Inl err)
    with False show ?thesis
      using colorNameToRGBString_isl [of "color e"]
      by (simp add: precalc_def colorAccepted_def)
  next
    case (Inr v)
    then have "\<not> isl (RGBStringToShellyValues v)"
      by (simp add: RGBStringToShellyValues_isl colorNameToRGBString_hex)
    with False Inr show ?thesis
      using colorNameToRGBString_isl [of "color e"]
      by (auto simp: precalc_def colorAccepted_def split: sum.splits)
  qed
qed

lemma precalc_Inr: "precalc e = Inr e' \<Longrightarrow> \<exists>v. e' = e\<lparr>shellyRGB := Some v\<rparr>"
  by (auto simp: precalc_def split: sum.splits if_splits)

lemma precalcLoop_isl:
  "isl (precalcLoop m) \<longleftrightarrow> \<not> list_all (\<lambda>e. colorAccepted (color e)) m"
  by (induction m) (auto simp: precalc_isl [symmetric] split: sum.splits)

lemma precalcLoop_Inr:
  "precalcLoop m = Inr m' \<Longrightarrow> list_all2 (\<lambda>e e'. \<exists>v. e' = e\<lparr>shellyRGB := Some v\<rparr>) m m'"
  by (induction m arbitrary: m') (auto split: sum.splits dest: precalc_Inr)

lemma orderLoop_eq:
  "orderLoop m =
    (if sorted_wrt (<) (map fromPriceWithTax m) then Inr ()
     else Inl (Die ''PPI: Price map order failure, crash''))"
  by (induction m rule: orderLoop.induct) (auto simp: sorted_wrt2 [OF transp_on_less])

lemma brightnessLoop_isl: "isl (brightnessLoop m) \<longleftrightarrow> \<not> validBrightness m"
  by (induction m) (auto simp: validBrightness_def brightnessInRange_def)

lemma brightnessLoop_Inl: "brightnessLoop m = Inl err \<Longrightarrow> \<exists>msg. err = Die msg"
  by (induction m) (auto split: if_splits)

lemma hexCharToInt_Inl: "hexCharToInt c = Inl err \<Longrightarrow> err = Die ''PPI: invalid hex value, crash''"
  by (auto simp: hexCharToInt_def split: option.splits if_splits)

lemma hexToShellyColorValue_Inl:
  "hexToShellyColorValue h = Inl err \<Longrightarrow> err = Die ''PPI: invalid hex value, crash''"
  by (auto simp: hexToShellyColorValue_def hexToInt_def split: sum.splits dest: hexCharToInt_Inl)

lemma RGBStringToShellyValues_Inl:
  "RGBStringToShellyValues v = Inl err \<Longrightarrow> err = Die ''PPI: invalid hex value, crash''"
  by (auto simp: RGBStringToShellyValues_def split: sum.splits dest: hexToShellyColorValue_Inl)

lemma colorNameToRGBString_Inl:
  "colorNameToRGBString name = Inl err \<Longrightarrow>
     err = Die (''PPI: color '' @ name @ '' not in color map - crash'')"
  by (simp add: colorNameToRGBString_def colorNameLoop_map_of split: option.splits)

lemma precalc_Inl: "precalc e = Inl err \<Longrightarrow> \<exists>msg. err = Die msg"
  by (auto simp: precalc_def split: sum.splits if_splits
      dest: colorNameToRGBString_Inl RGBStringToShellyValues_Inl)

lemma precalcLoop_Inl: "precalcLoop m = Inl err \<Longrightarrow> \<exists>msg. err = Die msg"
  by (induction m) (auto split: sum.splits dest: precalc_Inl)

subsection \<open>Which price maps \<open>checkConfig\<close> accepts\<close>

lemma validFloors_map:
  "validFloors m \<longleftrightarrow>
     map fromPriceWithTax m \<noteq> [] \<and> hd (map fromPriceWithTax m) \<le> 0 \<and>
     sorted_wrt (<) (map fromPriceWithTax m)"
  by (cases m) (simp_all add: validFloors_def)

lemma checkConfig_isl:
  "isl (checkConfig env m s) \<longleftrightarrow>
     \<not> (validFloors m \<and> validBrightness m \<and> list_all (\<lambda>e. colorAccepted (color e)) m)"
proof (cases m)
  case Nil
  then show ?thesis by (simp add: checkConfig_def validFloors_def)
next
  case (Cons first rest)
  have b: "isl (brightnessLoop m) \<longleftrightarrow> \<not> validBrightness m"
    by (rule brightnessLoop_isl)
  have p: "isl (precalcLoop m) \<longleftrightarrow> \<not> list_all (\<lambda>e. colorAccepted (color e)) m"
    by (rule precalcLoop_isl)
  show ?thesis
  proof (cases "fromPriceWithTax first > 0")
    case True
    with Cons show ?thesis by (simp add: checkConfig_def validFloors_def Let_def)
  next
    case False
    from Cons False have "isl (checkConfig env m s) \<longleftrightarrow>
        \<not> sorted_wrt (<) (map fromPriceWithTax m) \<or> isl (brightnessLoop m) \<or> isl (precalcLoop m)"
      by (auto simp: checkConfig_def Let_def orderLoop_eq split: sum.splits)
    with Cons False show ?thesis
      unfolding b p by (auto simp: validFloors_def)
  qed
qed

lemma checkConfig_Inr:
  assumes "checkConfig env m s = Inr (m', s')"
  shows "validFloors m" and "validBrightness m" and "precalcLoop m = Inr m'"
proof -
  from assms have "\<not> isl (checkConfig env m s)" by simp
  then show "validFloors m" and "validBrightness m"
    by (simp_all add: checkConfig_isl)
  from assms show "precalcLoop m = Inr m'"
    by (auto simp: checkConfig_def Let_def split: list.splits if_splits sum.splits)
qed

lemma precalcLoop_floors:
  "precalcLoop m = Inr m' \<Longrightarrow> map fromPriceWithTax m' = map fromPriceWithTax m"
  by (induction m arbitrary: m') (auto split: sum.splits dest: precalc_Inr)

lemma checkConfig_validFloors:
  assumes "checkConfig env m s = Inr (m', s')"
  shows "validFloors m'"
proof -
  from assms have "validFloors m" and "precalcLoop m = Inr m'"
    by (rule checkConfig_Inr)+
  then show ?thesis
    by (simp add: validFloors_map precalcLoop_floors)
qed

lemma checkConfig_Inl_Die:
  assumes "m \<noteq> []" and "checkConfig env m s = Inl err"
  shows "\<exists>msg. err = Die msg"
proof -
  from assms have
    "err = Die ''PPI: First price map entry must be <= 0, crash'' \<or>
     orderLoop m = Inl err \<or> brightnessLoop m = Inl err \<or> precalcLoop m = Inl err"
    by (cases m)
      (auto simp: checkConfig_def Let_def split: if_splits sum.splits
        simp del: orderLoop.simps brightnessLoop.simps precalcLoop.simps)
  then show ?thesis
    by (auto simp: orderLoop_eq split: if_splits dest: brightnessLoop_Inl precalcLoop_Inl)
qed

lemma checkConfig_nonempty:
  assumes "m \<noteq> []"
  shows "checkConfig env m s =
    (if fromPriceWithTax (hd m) > 0
     then Inl (Die ''PPI: First price map entry must be <= 0, crash'')
     else (case orderLoop m of
             Inl e \<Rightarrow> Inl e
           | Inr _ \<Rightarrow>
              (case brightnessLoop m of
                 Inl e \<Rightarrow> Inl e
               | Inr _ \<Rightarrow>
                  (case precalcLoop m of
                     Inl e \<Rightarrow> Inl e
                   | Inr m' \<Rightarrow>
                      Inr (m', if leds_mode (plugs_ui env) \<noteq> ''switch''
                               then s\<lparr>calls := calls s @
                                      [PLUGS_UI_SetConfig ((plugs_ui env)\<lparr>leds_mode := ''switch''\<rparr>)]\<rparr>
                               else s)))))"
proof -
  from assms obtain a r where m: "m = a # r" by (cases m) auto
  show ?thesis
    unfolding m
    by (auto simp: checkConfig_def Let_def split: sum.splits
        simp del: orderLoop.simps brightnessLoop.simps precalcLoop.simps)
qed

text \<open>
  C3, as the code has it. \<open>checkConfig\<close> stops fatally exactly when the floors, the
  brightness values or a colour token are not acceptable, and its checks run in this
  order, the first failing one deciding the error: an empty map (a TypeError), a first
  floor above 0, floors not strictly increasing, a brightness outside [0,100], a colour
  token that cannot be converted. A token starting with \<open>#\<close> is converted when the six
  characters after the \<open>#\<close> are hex digits, whatever follows them; any other token must be
  a name of \<open>COLOR_NAMES\<close>.
\<close>

theorem checkConfig_rejects:
  "(isl (checkConfig env m s) \<longleftrightarrow>
      \<not> (validFloors m \<and> validBrightness m \<and> list_all (\<lambda>e. colorAccepted (color e)) m)) \<and>
   (m = [] \<longrightarrow> checkConfig env m s = Inl TypeError) \<and>
   (m \<noteq> [] \<and> fromPriceWithTax (hd m) > 0 \<longrightarrow>
      checkConfig env m s = Inl (Die ''PPI: First price map entry must be <= 0, crash'')) \<and>
   (m \<noteq> [] \<and> fromPriceWithTax (hd m) \<le> 0 \<and> \<not> sorted_wrt (<) (map fromPriceWithTax m) \<longrightarrow>
      checkConfig env m s = Inl (Die ''PPI: Price map order failure, crash'')) \<and>
   (validFloors m \<and> \<not> validBrightness m \<longrightarrow>
      (\<exists>msg. checkConfig env m s = Inl (Die msg) \<and> brightnessLoop m = Inl (Die msg))) \<and>
   (validFloors m \<and> validBrightness m \<and> \<not> list_all (\<lambda>e. colorAccepted (color e)) m \<longrightarrow>
      (\<exists>msg. checkConfig env m s = Inl (Die msg) \<and> precalcLoop m = Inl (Die msg)))"
proof (intro conjI impI)
  show "isl (checkConfig env m s) \<longleftrightarrow>
      \<not> (validFloors m \<and> validBrightness m \<and> list_all (\<lambda>e. colorAccepted (color e)) m)"
    by (rule checkConfig_isl)
next
  assume "m = []"
  then show "checkConfig env m s = Inl TypeError"
    by (simp add: checkConfig_def)
next
  assume "m \<noteq> [] \<and> fromPriceWithTax (hd m) > 0"
  then show "checkConfig env m s = Inl (Die ''PPI: First price map entry must be <= 0, crash'')"
    by (simp add: checkConfig_nonempty)
next
  assume "m \<noteq> [] \<and> fromPriceWithTax (hd m) \<le> 0 \<and> \<not> sorted_wrt (<) (map fromPriceWithTax m)"
  then show "checkConfig env m s = Inl (Die ''PPI: Price map order failure, crash'')"
    by (simp add: checkConfig_nonempty orderLoop_eq)
next
  assume a: "validFloors m \<and> \<not> validBrightness m"
  then have "isl (brightnessLoop m)" by (simp add: brightnessLoop_isl)
  then obtain err where "brightnessLoop m = Inl err" by (cases "brightnessLoop m") auto
  moreover from this obtain msg where "err = Die msg" by (auto dest: brightnessLoop_Inl)
  moreover from a have "orderLoop m = Inr ()" "m \<noteq> []" "\<not> fromPriceWithTax (hd m) > 0"
    by (auto simp: validFloors_def orderLoop_eq)
  ultimately show "\<exists>msg. checkConfig env m s = Inl (Die msg) \<and> brightnessLoop m = Inl (Die msg)"
    by (simp add: checkConfig_nonempty)
next
  assume a: "validFloors m \<and> validBrightness m \<and> \<not> list_all (\<lambda>e. colorAccepted (color e)) m"
  then have "isl (precalcLoop m)" by (simp add: precalcLoop_isl)
  then obtain err where "precalcLoop m = Inl err" by (cases "precalcLoop m") auto
  moreover from this obtain msg where "err = Die msg" by (auto dest: precalcLoop_Inl)
  moreover from a have "orderLoop m = Inr ()" "m \<noteq> []" "\<not> fromPriceWithTax (hd m) > 0"
    by (auto simp: validFloors_def orderLoop_eq)
  moreover from a have "\<not> isl (brightnessLoop m)" by (simp add: brightnessLoop_isl)
  then have "brightnessLoop m = Inr ()" by (cases "brightnessLoop m") auto
  ultimately show "\<exists>msg. checkConfig env m s = Inl (Die msg) \<and> precalcLoop m = Inl (Die msg)"
    by (simp add: checkConfig_nonempty)
qed

lemma priceColorMap_valid:
  "validFloors priceColorMap \<and> validBrightness priceColorMap \<and>
   list_all (\<lambda>e. colorAccepted (color e)) priceColorMap"
  by code_simp

theorem checkConfig_rejects_witness:
  "checkConfig exampleEnv [] initialState = Inl TypeError \<and>
   checkConfig exampleEnv [configEntry 0.5 ''red'' 50 10] initialState =
     Inl (Die ''PPI: First price map entry must be <= 0, crash'') \<and>
   checkConfig exampleEnv [configEntry 0 ''green'' 50 10, configEntry 0 ''red'' 50 10] initialState =
     Inl (Die ''PPI: Price map order failure, crash'') \<and>
   isl (checkConfig exampleEnv [configEntry 0 ''red'' 101 10] initialState) \<and>
   isl (checkConfig exampleEnv [configEntry 0 ''nocolor'' 50 10] initialState) \<and>
   isl (checkConfig exampleEnv [configEntry 0 ''#GG0000'' 50 10] initialState) \<and>
   \<not> isl (checkConfig exampleEnv priceColorMap initialState)"
proof -
  have a: "checkConfig exampleEnv [] initialState = Inl TypeError"
    using checkConfig_rejects [of exampleEnv "[]" initialState] by simp
  have b: "checkConfig exampleEnv [configEntry 0.5 ''red'' 50 10] initialState =
      Inl (Die ''PPI: First price map entry must be <= 0, crash'')"
    using checkConfig_rejects [of exampleEnv "[configEntry 0.5 ''red'' 50 10]" initialState]
    by (simp add: configEntry_def)
  have c: "checkConfig exampleEnv [configEntry 0 ''green'' 50 10, configEntry 0 ''red'' 50 10]
      initialState = Inl (Die ''PPI: Price map order failure, crash'')"
    using checkConfig_rejects
      [of exampleEnv "[configEntry 0 ''green'' 50 10, configEntry 0 ''red'' 50 10]" initialState]
    by (simp add: configEntry_def)
  have "\<not> validBrightness [configEntry 0 ''red'' 101 10]"
    by (simp add: validBrightness_def configEntry_def)
  then have d: "isl (checkConfig exampleEnv [configEntry 0 ''red'' 101 10] initialState)"
    using checkConfig_rejects [of exampleEnv "[configEntry 0 ''red'' 101 10]" initialState]
    by simp
  have "\<not> colorAccepted ''nocolor''" by code_simp
  then have e: "isl (checkConfig exampleEnv [configEntry 0 ''nocolor'' 50 10] initialState)"
    using checkConfig_rejects [of exampleEnv "[configEntry 0 ''nocolor'' 50 10]" initialState]
    by (simp add: configEntry_def)
  have "\<not> colorAccepted ''#GG0000''" by code_simp
  then have f: "isl (checkConfig exampleEnv [configEntry 0 ''#GG0000'' 50 10] initialState)"
    using checkConfig_rejects [of exampleEnv "[configEntry 0 ''#GG0000'' 50 10]" initialState]
    by (simp add: configEntry_def)
  have g: "\<not> isl (checkConfig exampleEnv priceColorMap initialState)"
    using checkConfig_rejects [of exampleEnv priceColorMap initialState] priceColorMap_valid
    by simp
  from a b c d e f g show ?thesis by simp
qed

text \<open>
  C3 as stated fails on a token that starts with \<open>#\<close>, has six hex digits and then more
  characters: \<open>#A300FFzz\<close> is not a colour name, is not a well-formed hex colour and holds
  a character that is no hex digit, and \<open>checkConfig\<close> accepts the map, reading it as
  \<open>#A300FF\<close>.
\<close>

theorem checkConfig_trailing_counterexample:
  "\<not> knownColor ''#A300FFzz'' \<and> \<not> wellFormedHex ''#A300FFzz'' \<and>
   \<not> list_all hexDigit (drop 1 ''#A300FFzz'') \<and>
   checkConfig exampleEnv [configEntry 0 ''#A300FFzz'' 50 10] initialState =
     Inr ([(configEntry 0 ''#A300FFzz'' 50 10)\<lparr>shellyRGB := Some [64, 0, 100]\<rparr>], initialState)"
proof -
  have "\<not> knownColor ''#A300FFzz''" by code_simp
  moreover have "\<not> wellFormedHex ''#A300FFzz''" by (simp add: wellFormedHex_def)
  moreover have "\<not> list_all hexDigit (drop 1 ''#A300FFzz'')" by (simp add: hexDigit_def)
  moreover have "RGBStringToShellyValues ''#A300FFzz'' = Inr [64, 0, 100]"
    by (simp add: RGBStringToShellyValues_def hexToShellyColorValue_def hexToInt_def
        hexCharToInt_def str_at_def slice_def Math_round_def)
  then have "checkConfig exampleEnv [configEntry 0 ''#A300FFzz'' 50 10] initialState =
     Inr ([(configEntry 0 ''#A300FFzz'' 50 10)\<lparr>shellyRGB := Some [64, 0, 100]\<rparr>], initialState)"
    by (simp add: checkConfig_def exampleEnv_def configEntry_def precalc_def
        brightnessInRange_def)
  ultimately show ?thesis by simp
qed

subsection \<open>Brightness\<close>

text \<open>
  C10. \<open>brightnessInRange\<close> holds of exactly the reals from 0 to 100, whole or not, and
  \<open>checkConfig\<close> accepts every price map with valid floors and convertible colours whose
  brightness values are reals in that interval: the brightness check looks at the bounds only.
\<close>

theorem brightness_bounds_only:
  "(brightnessInRange b \<longleftrightarrow> 0 \<le> b \<and> b \<le> 100) \<and>
   (validFloors m \<and> list_all (\<lambda>e. colorAccepted (color e)) m \<and>
    list_all (\<lambda>e. 0 \<le> onBrightness e \<and> onBrightness e \<le> 100 \<and>
                   0 \<le> offBrightness e \<and> offBrightness e \<le> 100) m
    \<longrightarrow> (\<exists>m' s'. checkConfig env m s = Inr (m', s')))"
proof (intro conjI impI)
  show "brightnessInRange b \<longleftrightarrow> 0 \<le> b \<and> b \<le> 100"
    by (auto simp: brightnessInRange_def)
next
  assume "validFloors m \<and> list_all (\<lambda>e. colorAccepted (color e)) m \<and>
    list_all (\<lambda>e. 0 \<le> onBrightness e \<and> onBrightness e \<le> 100 \<and>
                   0 \<le> offBrightness e \<and> offBrightness e \<le> 100) m"
  then have "\<not> isl (checkConfig env m s)"
    by (simp add: checkConfig_isl validBrightness_def)
  then show "\<exists>m' s'. checkConfig env m s = Inr (m', s')"
    by (cases "checkConfig env m s") auto
qed

theorem brightness_bounds_only_witness:
  "brightnessInRange 50.5 \<and>
   (\<exists>m' s'. checkConfig exampleEnv
      [configEntry (-1) ''purple'' 50.5 10, configEntry 0 ''#FF4500'' 80 0.25] initialState =
      Inr (m', s'))"
proof -
  have "validFloors [configEntry (-1) ''purple'' 50.5 10, configEntry 0 ''#FF4500'' 80 0.25]"
    by (simp add: validFloors_def configEntry_def)
  moreover have "list_all (\<lambda>e. colorAccepted (color e))
      [configEntry (-1) ''purple'' 50.5 10, configEntry 0 ''#FF4500'' 80 0.25]"
    by code_simp
  moreover have "list_all (\<lambda>e. 0 \<le> onBrightness e \<and> onBrightness e \<le> 100 \<and>
                   0 \<le> offBrightness e \<and> offBrightness e \<le> 100)
      [configEntry (-1) ''purple'' 50.5 10, configEntry 0 ''#FF4500'' 80 0.25]"
    by (simp add: configEntry_def)
  ultimately show ?thesis
    using brightness_bounds_only
      [of "50.5" "[configEntry (-1) ''purple'' 50.5 10, configEntry 0 ''#FF4500'' 80 0.25]"
        exampleEnv initialState]
    by simp
qed

subsection \<open>The scan of the price map\<close>

lemma js_ge_Num [simp]: "js_ge (Num p) x \<longleftrightarrow> x \<le> p"
  by (simp add: js_ge_def)

lemma priceLoop_find:
  "PriceWithTax price = Inr v \<Longrightarrow> n \<le> length m \<Longrightarrow>
     priceLoop m price n = Inr (List.find (\<lambda>e. js_ge v (fromPriceWithTax e)) (rev (take n m)))"
  by (induction n) (simp_all add: take_Suc_conv_app_nth)

lemma priceLoop_Inl:
  "PriceWithTax price = Inl err \<Longrightarrow>
     priceLoop m price n = (if n = 0 then Inr None else Inl err)"
  by (cases n) simp_all

lemma priceLoop_None_iff:
  "PriceWithTax price = Inr v \<Longrightarrow>
     priceLoop m price n = Inr None \<longleftrightarrow> (\<forall>i<n. \<not> js_ge v (fromPriceWithTax (m ! i)))"
  by (induction n) (auto simp: less_Suc_eq)

lemma priceLoop_Some:
  "PriceWithTax price = Inr v \<Longrightarrow> priceLoop m price n = Inr (Some e) \<Longrightarrow>
     \<exists>i<n. e = m ! i \<and> js_ge v (fromPriceWithTax (m ! i)) \<and>
            (\<forall>j<n. i < j \<longrightarrow> \<not> js_ge v (fromPriceWithTax (m ! j)))"
proof (induction n)
  case 0
  then show ?case by simp
next
  case (Suc n)
  show ?case
  proof (cases "js_ge v (fromPriceWithTax (m ! n))")
    case True
    with Suc.prems have "e = m ! n" by simp
    with True show ?thesis by (intro exI [of _ n]) auto
  next
    case False
    with Suc.prems have "priceLoop m price n = Inr (Some e)" by simp
    from Suc.IH [OF Suc.prems(1) this] obtain i where
      "i < n" "e = m ! i" "js_ge v (fromPriceWithTax (m ! i))"
      "\<forall>j<n. i < j \<longrightarrow> \<not> js_ge v (fromPriceWithTax (m ! j))"
      by blast
    with False show ?thesis
      by (intro exI [of _ i]) (auto simp: less_Suc_eq)
  qed
qed

lemma priceLoop_cases:
  assumes "PriceWithTax price = Inr v"
  obtains "priceLoop m price (length m) = Inr None"
  | e where "priceLoop m price (length m) = Inr (Some e)"
proof (cases "List.find (\<lambda>e. js_ge v (fromPriceWithTax e)) (rev m)")
  case None
  with priceLoop_find [OF assms, of "length m" m] that(1) show ?thesis by simp
next
  case (Some e)
  with priceLoop_find [OF assms, of "length m" m] that(2) show ?thesis by simp
qed

lemma floors_nth_less:
  assumes "sorted_wrt (<) (map fromPriceWithTax m)" and "i < j" and "j < length m"
  shows "fromPriceWithTax (m ! i) < fromPriceWithTax (m ! j)"
  using sorted_wrt_nth_less [OF assms(1), of i j] assms(2,3) by simp

lemma priceLoop_greatest:
  assumes sorted: "sorted_wrt (<) (map fromPriceWithTax m)"
    and price: "PriceWithTax price = Inr (Num p)"
  shows "priceLoop m price (length m) = Inr (Some e) \<longleftrightarrow>
     e \<in> set m \<and> fromPriceWithTax e \<le> p \<and>
     (\<forall>e'\<in>set m. fromPriceWithTax e' \<le> p \<longrightarrow> fromPriceWithTax e' \<le> fromPriceWithTax e)"
    (is "?L \<longleftrightarrow> ?R")
proof
  assume ?L
  from priceLoop_Some [OF price this] obtain i where i:
    "i < length m" "e = m ! i" "fromPriceWithTax (m ! i) \<le> p"
    "\<forall>j<length m. i < j \<longrightarrow> \<not> fromPriceWithTax (m ! j) \<le> p"
    by auto
  have "fromPriceWithTax e' \<le> fromPriceWithTax e"
    if "e' \<in> set m" and "fromPriceWithTax e' \<le> p" for e'
  proof -
    from that(1) obtain j where j: "j < length m" "e' = m ! j"
      by (auto simp: in_set_conv_nth)
    with that(2) i(4) have "j \<le> i" by (meson not_le_imp_less)
    show ?thesis
    proof (cases "j = i")
      case True
      with i(2) j(2) show ?thesis by simp
    next
      case False
      with \<open>j \<le> i\<close> have "j < i" by simp
      from floors_nth_less [OF sorted this i(1)] i(2) j(2) show ?thesis by simp
    qed
  qed
  with i show ?R by auto
next
  assume r: ?R
  then obtain i where i: "i < length m" "e = m ! i"
    by (auto simp: in_set_conv_nth)
  with r have "priceLoop m price (length m) \<noteq> Inr None"
    by (auto simp: priceLoop_None_iff [OF price])
  then obtain e2 where e2: "priceLoop m price (length m) = Inr (Some e2)"
    by (rule_tac priceLoop_cases [OF price, of m]) auto
  from priceLoop_Some [OF price this] obtain k where k:
    "k < length m" "e2 = m ! k" "fromPriceWithTax (m ! k) \<le> p"
    "\<forall>j<length m. k < j \<longrightarrow> \<not> fromPriceWithTax (m ! j) \<le> p"
    by auto
  from r i k(4) have "i \<le> k" by (meson not_le_imp_less)
  from k(1,2,3) r have le: "fromPriceWithTax (m ! k) \<le> fromPriceWithTax (m ! i)"
    using i(2) by auto
  have "i = k"
  proof (rule ccontr)
    assume "i \<noteq> k"
    with \<open>i \<le> k\<close> have "i < k" by simp
    from floors_nth_less [OF sorted this k(1)] le show False by simp
  qed
  with e2 k(2) i(2) show ?L by simp
qed

subsection \<open>What a response of status 200 does\<close>

lemma configureLight_calls:
  "configureLight env v a b s =
     s\<lparr>calls := calls s @
        (if leds_mode (plugs_ui env) = ''switch''
         then [PLUGS_UI_SetConfig
                ((plugs_ui env)\<lparr>switch0_on := \<lparr>rgb = v, brightness = a\<rparr>,
                                 switch0_off := \<lparr>rgb = v, brightness = b\<rparr>\<rparr>)]
         else [])\<rparr>"
  by (simp add: configureLight_def Let_def)

lemma connected_once:
  "(if isConnected s = False then connected_st s else s) = s\<lparr>isConnected := True\<rparr>"
  by (cases s) (simp add: connected_st_def)

lemma handleResponse_200:
  assumes "code resp = 200" and "PriceWithTax (body resp) = Inr v"
  shows "handleResponse env m (Some resp) s =
    (case priceLoop m (body resp) (length m) of
       Inl err \<Rightarrow> Inl err
     | Inr (Some e) \<Rightarrow>
         Inr (True, configureLight env (shellyRGB e) (onBrightness e) (offBrightness e)
                (if isConnected s = False then connected_st s else s))
     | Inr None \<Rightarrow> Inl (Die ''PPI: price not found in color map, crash.''))"
proof -
  from assms(2) have "body resp \<noteq> ParseFailure" by auto
  with assms(1) show ?thesis
    by (simp add: handleResponse_def Let_def)
qed

lemma handleResponse_found:
  assumes "code resp = 200" and "PriceWithTax (body resp) = Inr v"
    and "priceLoop m (body resp) (length m) = Inr (Some e)"
  shows "handleResponse env m (Some resp) s =
     Inr (True, s\<lparr>isConnected := True,
                  calls := calls s @
                    (if leds_mode (plugs_ui env) = ''switch''
                     then [PLUGS_UI_SetConfig
                            ((plugs_ui env)
                               \<lparr>switch0_on := \<lparr>rgb = shellyRGB e, brightness = onBrightness e\<rparr>,
                                switch0_off := \<lparr>rgb = shellyRGB e, brightness = offBrightness e\<rparr>\<rparr>)]
                     else [])\<rparr>)"
  unfolding handleResponse_200 [OF assms(1,2)] assms(3) connected_once configureLight_calls
  by simp

lemma handleResponse_not_found:
  assumes "code resp = 200" and "PriceWithTax (body resp) = Inr v"
    and "priceLoop m (body resp) (length m) = Inr None"
  shows "handleResponse env m (Some resp) s =
     Inl (Die ''PPI: price not found in color map, crash.'')"
  using assms by (simp add: handleResponse_200)

lemma precalcLoop_set:
  "precalcLoop m = Inr m' \<Longrightarrow> e' \<in> set m' \<Longrightarrow> \<exists>e\<in>set m. precalc e = Inr e'"
  by (induction m arbitrary: m') (auto split: sum.splits)

lemma exampleMap_checked:
  "checkConfig exampleEnv exampleMap initialState = Inr (exampleMapChecked, initialState)"
  by code_simp

lemma priceResponse_ok:
  "code (priceResponse v) = 200" "PriceWithTax (body (priceResponse v)) = Inr v"
  by (simp_all add: priceResponse_def)

text \<open>
  C1, as the code has it. With a price map that \<open>checkConfig\<close> has accepted and a response
  of status 200 whose \<open>PriceWithTax\<close> is the number \<open>p\<close>: the loop of \<open>handleResponse\<close>
  returns the first entry, going from the last entry to the first, whose floor is at most
  \<open>p\<close>; that entry is \<open>e\<close> exactly when \<open>e\<close> is the entry with the greatest floor at most
  \<open>p\<close>, and an entry whose floor equals \<open>p\<close> is the one chosen. The entry found carries
  the colour that \<open>checkConfig\<close> computed from its colour token; the handler marks the
  script connected and returns true; and when the device's LED mode is \<open>switch\<close> it
  issues one \<open>PLUGS_UI.SetConfig\<close> that sets the on and off colour of \<open>switch:0\<close> to that
  colour with the entry's on and off brightness. In any other LED mode it issues no call.
\<close>

theorem handleResponse_greatest_floor:
  "checkConfig env0 m0 s0 = Inr (m, s1) \<and> code resp = 200 \<and>
   PriceWithTax (body resp) = Inr (Num p) \<longrightarrow>
     priceLoop m (body resp) (length m) =
       Inr (List.find (\<lambda>e. fromPriceWithTax e \<le> p) (rev m)) \<and>
     (priceLoop m (body resp) (length m) = Inr (Some e) \<longleftrightarrow>
        e \<in> set m \<and> fromPriceWithTax e \<le> p \<and>
        (\<forall>e'\<in>set m. fromPriceWithTax e' \<le> p \<longrightarrow> fromPriceWithTax e' \<le> fromPriceWithTax e)) \<and>
     (e \<in> set m \<and> fromPriceWithTax e = p \<longrightarrow>
        priceLoop m (body resp) (length m) = Inr (Some e)) \<and>
     (priceLoop m (body resp) (length m) = Inr (Some e) \<longrightarrow>
        (\<exists>e0\<in>set m0. precalc e0 = Inr e) \<and>
        handleResponse env m (Some resp) s =
          Inr (True,
               s\<lparr>isConnected := True,
                 calls := calls s @
                   (if leds_mode (plugs_ui env) = ''switch''
                    then [PLUGS_UI_SetConfig
                           ((plugs_ui env)
                              \<lparr>switch0_on := \<lparr>rgb = shellyRGB e, brightness = onBrightness e\<rparr>,
                               switch0_off := \<lparr>rgb = shellyRGB e, brightness = offBrightness e\<rparr>\<rparr>)]
                    else [])\<rparr>))"
proof (intro impI)
  assume a: "checkConfig env0 m0 s0 = Inr (m, s1) \<and> code resp = 200 \<and>
    PriceWithTax (body resp) = Inr (Num p)"
  then have price: "PriceWithTax (body resp) = Inr (Num p)" and c: "code resp = 200"
    by simp_all
  from a have "validFloors m" by (auto dest: checkConfig_validFloors)
  then have sorted: "sorted_wrt (<) (map fromPriceWithTax m)"
    by (simp add: validFloors_def)
  from a have pre: "precalcLoop m0 = Inr m" by (auto dest: checkConfig_Inr(3))
  have 1: "priceLoop m (body resp) (length m) =
      Inr (List.find (\<lambda>e. fromPriceWithTax e \<le> p) (rev m))"
    using priceLoop_find [OF price, of "length m" m] by simp
  note 2 = priceLoop_greatest [OF sorted price, of e]
  have 3: "priceLoop m (body resp) (length m) = Inr (Some e)"
    if "e \<in> set m \<and> fromPriceWithTax e = p"
  proof -
    have "fromPriceWithTax e' \<le> fromPriceWithTax e"
      if "e' \<in> set m" "fromPriceWithTax e' \<le> p" for e'
      using that \<open>e \<in> set m \<and> fromPriceWithTax e = p\<close> by simp
    with that show ?thesis by (simp add: 2)
  qed
  have 4: "(\<exists>e0\<in>set m0. precalc e0 = Inr e) \<and>
        handleResponse env m (Some resp) s =
          Inr (True,
               s\<lparr>isConnected := True,
                 calls := calls s @
                   (if leds_mode (plugs_ui env) = ''switch''
                    then [PLUGS_UI_SetConfig
                           ((plugs_ui env)
                              \<lparr>switch0_on := \<lparr>rgb = shellyRGB e, brightness = onBrightness e\<rparr>,
                               switch0_off := \<lparr>rgb = shellyRGB e, brightness = offBrightness e\<rparr>\<rparr>)]
                    else [])\<rparr>)"
    if f: "priceLoop m (body resp) (length m) = Inr (Some e)"
  proof
    from f have "e \<in> set m" by (simp add: 2)
    with pre show "\<exists>e0\<in>set m0. precalc e0 = Inr e" by (rule precalcLoop_set)
    from c price f show "handleResponse env m (Some resp) s =
          Inr (True,
               s\<lparr>isConnected := True,
                 calls := calls s @
                   (if leds_mode (plugs_ui env) = ''switch''
                    then [PLUGS_UI_SetConfig
                           ((plugs_ui env)
                              \<lparr>switch0_on := \<lparr>rgb = shellyRGB e, brightness = onBrightness e\<rparr>,
                               switch0_off := \<lparr>rgb = shellyRGB e, brightness = offBrightness e\<rparr>\<rparr>)]
                    else [])\<rparr>)"
      by (rule handleResponse_found)
  qed
  from 1 2 3 4 show "priceLoop m (body resp) (length m) =
       Inr (List.find (\<lambda>e. fromPriceWithTax e \<le> p) (rev m)) \<and>
     (priceLoop m (body resp) (length m) = Inr (Some e) \<longleftrightarrow>
        e \<in> set m \<and> fromPriceWithTax e \<le> p \<and>
        (\<forall>e'\<in>set m. fromPriceWithTax e' \<le> p \<longrightarrow> fromPriceWithTax e' \<le> fromPriceWithTax e)) \<and>
     (e \<in> set m \<and> fromPriceWithTax e = p \<longrightarrow>
        priceLoop m (body resp) (length m) = Inr (Some e)) \<and>
     (priceLoop m (body resp) (length m) = Inr (Some e) \<longrightarrow>
        (\<exists>e0\<in>set m0. precalc e0 = Inr e) \<and>
        handleResponse env m (Some resp) s =
          Inr (True,
               s\<lparr>isConnected := True,
                 calls := calls s @
                   (if leds_mode (plugs_ui env) = ''switch''
                    then [PLUGS_UI_SetConfig
                           ((plugs_ui env)
                              \<lparr>switch0_on := \<lparr>rgb = shellyRGB e, brightness = onBrightness e\<rparr>,
                               switch0_off := \<lparr>rgb = shellyRGB e, brightness = offBrightness e\<rparr>\<rparr>)]
                    else [])\<rparr>))"
    by blast
qed

text \<open>The scenario of the specification on a device in \<open>switch\<close> mode: with the floors -1, 0
  and 0.09, the price 0.05 writes the entry of floor 0 (green), the price -0.5 the entry of
  floor -1 (purple), and the price 0.09 the entry of floor 0.09 (turquoise).\<close>

theorem handleResponse_greatest_floor_witness:
  "checkConfig exampleEnv exampleMap initialState = Inr (exampleMapChecked, initialState) \<and>
   handleResponse exampleEnv exampleMapChecked (Some (priceResponse (Num 0.05))) initialState =
     Inr (True,
          \<lparr>isConnected = True,
           calls = [PLUGS_UI_SetConfig
                      \<lparr>leds_mode = ''switch'',
                       switch0_on = \<lparr>rgb = Some [0, 50, 0], brightness = 80\<rparr>,
                       switch0_off = \<lparr>rgb = Some [0, 50, 0], brightness = 10\<rparr>\<rparr>]\<rparr>) \<and>
   handleResponse exampleEnv exampleMapChecked (Some (priceResponse (Num (-0.5)))) initialState =
     Inr (True,
          \<lparr>isConnected = True,
           calls = [PLUGS_UI_SetConfig
                      \<lparr>leds_mode = ''switch'',
                       switch0_on = \<lparr>rgb = Some [50, 0, 50], brightness = 80\<rparr>,
                       switch0_off = \<lparr>rgb = Some [50, 0, 50], brightness = 10\<rparr>\<rparr>]\<rparr>) \<and>
   handleResponse exampleEnv exampleMapChecked (Some (priceResponse (Num 0.09))) initialState =
     Inr (True,
          \<lparr>isConnected = True,
           calls = [PLUGS_UI_SetConfig
                      \<lparr>leds_mode = ''switch'',
                       switch0_on = \<lparr>rgb = Some [25, 88, 82], brightness = 50\<rparr>,
                       switch0_off = \<lparr>rgb = Some [25, 88, 82], brightness = 7\<rparr>\<rparr>]\<rparr>)"
proof -
  note c = exampleMap_checked
  note r = priceResponse_ok
  have f: "List.find (\<lambda>e. fromPriceWithTax e \<le> 0.05) (rev exampleMapChecked) =
        Some (exampleMapChecked ! 1)"
      "List.find (\<lambda>e. fromPriceWithTax e \<le> -0.5) (rev exampleMapChecked) =
        Some (exampleMapChecked ! 0)"
      "List.find (\<lambda>e. fromPriceWithTax e \<le> 0.09) (rev exampleMapChecked) =
        Some (exampleMapChecked ! 2)"
    by (simp_all add: exampleMapChecked_def configEntry_def)
  have "handleResponse exampleEnv exampleMapChecked (Some (priceResponse (Num 0.05))) initialState =
     Inr (True,
          \<lparr>isConnected = True,
           calls = [PLUGS_UI_SetConfig
                      \<lparr>leds_mode = ''switch'',
                       switch0_on = \<lparr>rgb = Some [0, 50, 0], brightness = 80\<rparr>,
                       switch0_off = \<lparr>rgb = Some [0, 50, 0], brightness = 10\<rparr>\<rparr>]\<rparr>)"
    using handleResponse_greatest_floor
      [of exampleEnv exampleMap initialState exampleMapChecked initialState
        "priceResponse (Num 0.05)" "0.05" "exampleMapChecked ! 1" exampleEnv initialState]
      c r f
    by (simp add: exampleMapChecked_def configEntry_def initialState_def exampleEnv_def)
  moreover
  have "handleResponse exampleEnv exampleMapChecked (Some (priceResponse (Num (-0.5)))) initialState =
     Inr (True,
          \<lparr>isConnected = True,
           calls = [PLUGS_UI_SetConfig
                      \<lparr>leds_mode = ''switch'',
                       switch0_on = \<lparr>rgb = Some [50, 0, 50], brightness = 80\<rparr>,
                       switch0_off = \<lparr>rgb = Some [50, 0, 50], brightness = 10\<rparr>\<rparr>]\<rparr>)"
    using handleResponse_greatest_floor
      [of exampleEnv exampleMap initialState exampleMapChecked initialState
        "priceResponse (Num (-0.5))" "-0.5" "exampleMapChecked ! 0" exampleEnv initialState]
      c r f
    by (simp add: exampleMapChecked_def configEntry_def initialState_def exampleEnv_def)
  moreover
  have "handleResponse exampleEnv exampleMapChecked (Some (priceResponse (Num 0.09))) initialState =
     Inr (True,
          \<lparr>isConnected = True,
           calls = [PLUGS_UI_SetConfig
                      \<lparr>leds_mode = ''switch'',
                       switch0_on = \<lparr>rgb = Some [25, 88, 82], brightness = 50\<rparr>,
                       switch0_off = \<lparr>rgb = Some [25, 88, 82], brightness = 7\<rparr>\<rparr>]\<rparr>)"
    using handleResponse_greatest_floor
      [of exampleEnv exampleMap initialState exampleMapChecked initialState
        "priceResponse (Num 0.09)" "0.09" "exampleMapChecked ! 2" exampleEnv initialState]
      c r f
    by (simp add: exampleMapChecked_def configEntry_def initialState_def exampleEnv_def)
  ultimately show ?thesis using c by simp
qed

text \<open>
  C1 as stated fails on a device whose LED mode is not \<open>switch\<close> when the response
  arrives: with the accepted map of floors -1, 0 and 0.09 and the price 0.05, the handler
  returns true and marks the script connected, and the entry of floor 0 is not applied to
  the light: no call is issued.
\<close>

theorem handleResponse_power_mode_counterexample:
  "checkConfig exampleEnv exampleMap initialState = Inr (exampleMapChecked, initialState) \<and>
   leds_mode (plugs_ui powerEnv) = ''power'' \<and>
   handleResponse powerEnv exampleMapChecked (Some (priceResponse (Num 0.05))) initialState =
     Inr (True, \<lparr>isConnected = True, calls = []\<rparr>)"
proof -
  have "priceLoop exampleMapChecked (body (priceResponse (Num 0.05))) (length exampleMapChecked) =
      Inr (Some (exampleMapChecked ! 1))"
    by (simp add: priceResponse_def exampleMapChecked_def configEntry_def eval_nat_numeral)
  then have "handleResponse powerEnv exampleMapChecked (Some (priceResponse (Num 0.05)))
      initialState = Inr (True, \<lparr>isConnected = True, calls = []\<rparr>)"
    by (simp add: handleResponse_found [OF priceResponse_ok] powerEnv_def exampleEnv_def
        initialState_def)
  with exampleMap_checked show ?thesis
    by (simp add: powerEnv_def exampleEnv_def)
qed

lemma priceColorMap_checked:
  "checkConfig exampleEnv priceColorMap initialState = Inr (priceColorMapChecked, initialState)"
  by code_simp

lemma floors_hd_least:
  assumes "validFloors m" and "e \<in> set m"
  shows "fromPriceWithTax (hd m) \<le> fromPriceWithTax e"
  using assms by (cases m) (auto simp: validFloors_def)

lemma priceLoop_from_first_floor:
  assumes "validFloors m" and price: "PriceWithTax price = Inr v" and "ToNumber v = Some x"
    and "fromPriceWithTax (hd m) \<le> x"
  shows "\<exists>e\<in>set m. priceLoop m price (length m) = Inr (Some e)"
proof -
  from assms(1) have "m \<noteq> []" by (simp add: validFloors_def)
  with assms(3,4) have "0 < length m \<and> js_ge v (fromPriceWithTax (m ! 0))"
    by (simp add: hd_conv_nth js_ge_def)
  then have "priceLoop m price (length m) \<noteq> Inr None"
    unfolding priceLoop_None_iff [OF price] by blast
  then obtain e where e: "priceLoop m price (length m) = Inr (Some e)"
    by (rule_tac priceLoop_cases [OF price, of m]) auto
  from priceLoop_Some [OF price this] have "e \<in> set m" by auto
  with e show ?thesis by auto
qed

text \<open>
  C2, as the code has it. With a price map that \<open>checkConfig\<close> has accepted, the first
  floor is at most 0, and a response of status 200 with the number \<open>p\<close> as \<open>PriceWithTax\<close>
  finds an entry exactly when \<open>p\<close> is not below the first floor: so every price from 0
  upwards is matched, and a price below the first floor reaches
  \<open>die("PPI: price not found in color map, crash.")\<close>.
\<close>

theorem handleResponse_match_from_first_floor:
  "checkConfig env0 m0 s0 = Inr (m, s1) \<and> code resp = 200 \<and>
   PriceWithTax (body resp) = Inr (Num p) \<longrightarrow>
     fromPriceWithTax (hd m) \<le> 0 \<and>
     (fromPriceWithTax (hd m) \<le> p \<longrightarrow>
        (\<exists>e\<in>set m. handleResponse env m (Some resp) s =
           Inr (True, configureLight env (shellyRGB e) (onBrightness e) (offBrightness e)
                  (if isConnected s = False then connected_st s else s)))) \<and>
     (0 \<le> p \<longrightarrow> fromPriceWithTax (hd m) \<le> p) \<and>
     (p < fromPriceWithTax (hd m) \<longrightarrow>
        handleResponse env m (Some resp) s =
          Inl (Die ''PPI: price not found in color map, crash.''))"
proof (intro impI)
  assume a: "checkConfig env0 m0 s0 = Inr (m, s1) \<and> code resp = 200 \<and>
    PriceWithTax (body resp) = Inr (Num p)"
  then have price: "PriceWithTax (body resp) = Inr (Num p)" and c: "code resp = 200"
    by simp_all
  from a have v: "validFloors m" by (auto dest: checkConfig_validFloors)
  then have first: "fromPriceWithTax (hd m) \<le> 0"
    by (simp add: validFloors_def)
  have 1: "\<exists>e\<in>set m. handleResponse env m (Some resp) s =
           Inr (True, configureLight env (shellyRGB e) (onBrightness e) (offBrightness e)
                  (if isConnected s = False then connected_st s else s))"
    if "fromPriceWithTax (hd m) \<le> p"
  proof -
    from priceLoop_from_first_floor [OF v price _ that]
    obtain e where "e \<in> set m" "priceLoop m (body resp) (length m) = Inr (Some e)"
      by auto
    with c price show ?thesis
      by (auto simp: handleResponse_200)
  qed
  have 2: "handleResponse env m (Some resp) s =
          Inl (Die ''PPI: price not found in color map, crash.'')"
    if "p < fromPriceWithTax (hd m)"
  proof -
    have "\<not> js_ge (Num p) (fromPriceWithTax (m ! i))" if "i < length m" for i
      using floors_hd_least [OF v, of "m ! i"] that \<open>p < fromPriceWithTax (hd m)\<close> by simp
    then have "priceLoop m (body resp) (length m) = Inr None"
      by (simp add: priceLoop_None_iff [OF price])
    with c price show ?thesis by (rule handleResponse_not_found)
  qed
  from first 1 2 show "fromPriceWithTax (hd m) \<le> 0 \<and>
     (fromPriceWithTax (hd m) \<le> p \<longrightarrow>
        (\<exists>e\<in>set m. handleResponse env m (Some resp) s =
           Inr (True, configureLight env (shellyRGB e) (onBrightness e) (offBrightness e)
                  (if isConnected s = False then connected_st s else s)))) \<and>
     (0 \<le> p \<longrightarrow> fromPriceWithTax (hd m) \<le> p) \<and>
     (p < fromPriceWithTax (hd m) \<longrightarrow>
        handleResponse env m (Some resp) s =
          Inl (Die ''PPI: price not found in color map, crash.''))"
    by auto
qed

theorem handleResponse_match_from_first_floor_witness:
  "checkConfig exampleEnv priceColorMap initialState = Inr (priceColorMapChecked, initialState) \<and>
   fromPriceWithTax (hd priceColorMapChecked) = -1 \<and>
   (\<exists>e\<in>set priceColorMapChecked.
      handleResponse exampleEnv priceColorMapChecked (Some (priceResponse (Num 0.3))) initialState =
        Inr (True, configureLight exampleEnv (shellyRGB e) (onBrightness e) (offBrightness e)
               (connected_st initialState))) \<and>
   handleResponse exampleEnv priceColorMapChecked (Some (priceResponse (Num (-1.5)))) initialState =
     Inl (Die ''PPI: price not found in color map, crash.'')"
proof -
  note c = priceColorMap_checked
  note r = priceResponse_ok
  have f: "fromPriceWithTax (hd priceColorMapChecked) = -1"
    by (simp add: priceColorMapChecked_def priceColorMap_def)
  have "\<exists>e\<in>set priceColorMapChecked.
      handleResponse exampleEnv priceColorMapChecked (Some (priceResponse (Num 0.3))) initialState =
        Inr (True, configureLight exampleEnv (shellyRGB e) (onBrightness e) (offBrightness e)
               (connected_st initialState))"
    using handleResponse_match_from_first_floor
      [of exampleEnv priceColorMap initialState priceColorMapChecked initialState
        "priceResponse (Num 0.3)" "0.3" exampleEnv initialState]
      c r f
    by (simp add: initialState_def)
  moreover
  have "handleResponse exampleEnv priceColorMapChecked (Some (priceResponse (Num (-1.5)))) initialState =
     Inl (Die ''PPI: price not found in color map, crash.'')"
    using handleResponse_match_from_first_floor
      [of exampleEnv priceColorMap initialState priceColorMapChecked initialState
        "priceResponse (Num (-1.5))" "-1.5" exampleEnv initialState]
      c r f
    by simp
  ultimately show ?thesis using c f by simp
qed

text \<open>
  C2 as stated fails: \<open>priceColorMap\<close> passes \<open>checkConfig\<close>, and the finite price -2, below
  its first floor -1, reaches \<open>die\<close>.
\<close>

theorem handleResponse_below_first_floor_counterexample:
  "checkConfig exampleEnv priceColorMap initialState = Inr (priceColorMapChecked, initialState) \<and>
   handleResponse exampleEnv priceColorMapChecked (Some (priceResponse (Num (-2)))) initialState =
     Inl (Die ''PPI: price not found in color map, crash.'')"
proof -
  have "priceLoop priceColorMapChecked (body (priceResponse (Num (-2))))
      (length priceColorMapChecked) = Inr None"
    by (simp add: priceResponse_def priceColorMapChecked_def priceColorMap_def
        eval_nat_numeral)
  then have "handleResponse exampleEnv priceColorMapChecked (Some (priceResponse (Num (-2))))
      initialState = Inl (Die ''PPI: price not found in color map, crash.'')"
    by (rule handleResponse_not_found [OF priceResponse_ok])
  with priceColorMap_checked show ?thesis by simp
qed

subsection \<open>A body without a numeric price\<close>

lemma priceLoop_ToNumber_None:
  "PriceWithTax price = Inr v \<Longrightarrow> ToNumber v = None \<Longrightarrow> priceLoop m price n = Inr None"
  by (induction n) (simp_all add: js_ge_def)

lemma priceLoop_ToNumber_Some:
  "PriceWithTax price = Inr v \<Longrightarrow> ToNumber v = Some x \<Longrightarrow>
   PriceWithTax price' = Inr (Num x) \<Longrightarrow> priceLoop m price n = priceLoop m price' n"
  by (induction n) (simp_all add: js_ge_def)

text \<open>
  C9, as the code has it. For a response of status 200 whose body parses: when
  \<open>PriceWithTax\<close> is absent (\<open>undefined\<close>), or is a value that the comparison converts to
  NaN (a plain object, or a string or array of which the engine makes no number), every
  comparison is false and \<open>die("PPI: price not found in color map, crash.")\<close> is reached,
  whatever the price map. When it converts to a number \<open>x\<close> (\<open>null\<close> to 0, \<open>false\<close> to 0,
  \<open>true\<close> to 1, a string or array to the number the engine makes of it), the handler does
  what it does for the price \<open>x\<close>: with a price map that \<open>checkConfig\<close> has accepted and
  \<open>x\<close> at least 0, an entry of floor at most \<open>x\<close> is found, the handler returns true and,
  in LED mode \<open>switch\<close>, writes that entry to the light. A body that is \<open>null\<close> itself
  ends in a TypeError at the first read of the property; with an empty price map the loop
  makes no read and \<open>die\<close> is reached.
\<close>

theorem handleResponse_no_number:
  "code resp = 200 \<longrightarrow>
     (PriceWithTax (body resp) = Inr v \<and> ToNumber v = None \<longrightarrow>
        handleResponse env m (Some resp) s =
          Inl (Die ''PPI: price not found in color map, crash.'')) \<and>
     (body resp = Object kvs \<and> map_of kvs ''PriceWithTax'' = None \<longrightarrow>
        handleResponse env m (Some resp) s =
          Inl (Die ''PPI: price not found in color map, crash.'')) \<and>
     ToNumber Undefined = None \<and> ToNumber Obj = None \<and>
     ToNumber (Str t None) = None \<and> ToNumber (Arr None) = None \<and>
     ToNumber Null = Some 0 \<and> ToNumber (Bool False) = Some 0 \<and> ToNumber (Bool True) = Some 1 \<and>
     ToNumber (Str t (Some x)) = Some x \<and> ToNumber (Arr (Some x)) = Some x \<and>
     (PriceWithTax (body resp) = Inr v \<and> ToNumber v = Some x \<longrightarrow>
        handleResponse env m (Some resp) s =
          handleResponse env m (Some (resp\<lparr>body := Object [(''PriceWithTax'', Num x)]\<rparr>)) s) \<and>
     (checkConfig env0 m0 s0 = Inr (m, s1) \<and> PriceWithTax (body resp) = Inr v \<and>
      ToNumber v = Some x \<and> 0 \<le> x \<longrightarrow>
        (\<exists>e\<in>set m. fromPriceWithTax e \<le> x \<and>
           handleResponse env m (Some resp) s =
             Inr (True,
                  s\<lparr>isConnected := True,
                    calls := calls s @
                      (if leds_mode (plugs_ui env) = ''switch''
                       then [PLUGS_UI_SetConfig
                              ((plugs_ui env)
                                 \<lparr>switch0_on := \<lparr>rgb = shellyRGB e, brightness = onBrightness e\<rparr>,
                                  switch0_off := \<lparr>rgb = shellyRGB e, brightness = offBrightness e\<rparr>\<rparr>)]
                       else [])\<rparr>))) \<and>
     (body resp = Primitive Null \<longrightarrow>
        handleResponse env m (Some resp) s =
          (if m = [] then Inl (Die ''PPI: price not found in color map, crash.'')
           else Inl TypeError))"
proof (intro impI conjI)
  assume c: "code resp = 200"
  show "ToNumber Undefined = None" "ToNumber Obj = None" "ToNumber (Str t None) = None"
    "ToNumber (Arr None) = None" "ToNumber Null = Some 0" "ToNumber (Bool False) = Some 0"
    "ToNumber (Bool True) = Some 1" "ToNumber (Str t (Some x)) = Some x"
    "ToNumber (Arr (Some x)) = Some x"
    by simp_all
  {
    assume "PriceWithTax (body resp) = Inr v \<and> ToNumber v = None"
    with c show "handleResponse env m (Some resp) s =
          Inl (Die ''PPI: price not found in color map, crash.'')"
      by (simp add: handleResponse_200 priceLoop_ToNumber_None)
  next
    assume "body resp = Object kvs \<and> map_of kvs ''PriceWithTax'' = None"
    then have "PriceWithTax (body resp) = Inr Undefined" by simp
    with c show "handleResponse env m (Some resp) s =
          Inl (Die ''PPI: price not found in color map, crash.'')"
      by (simp add: handleResponse_200 priceLoop_ToNumber_None [of _ Undefined])
  next
    assume a: "PriceWithTax (body resp) = Inr v \<and> ToNumber v = Some x"
    let ?resp = "resp\<lparr>body := Object [(''PriceWithTax'', Num x)]\<rparr>"
    have p: "PriceWithTax (body ?resp) = Inr (Num x)" by simp
    have "code ?resp = 200" using c by simp
    from handleResponse_200 [OF this p]
    have "handleResponse env m (Some ?resp) s =
      (case priceLoop m (body ?resp) (length m) of
         Inl err \<Rightarrow> Inl err
       | Inr (Some e) \<Rightarrow>
           Inr (True, configureLight env (shellyRGB e) (onBrightness e) (offBrightness e)
                  (if isConnected s = False then connected_st s else s))
       | Inr None \<Rightarrow> Inl (Die ''PPI: price not found in color map, crash.''))" .
    moreover from a p have "priceLoop m (body resp) (length m) = priceLoop m (body ?resp) (length m)"
      by (simp add: priceLoop_ToNumber_Some [of "body resp" v x "body ?resp"])
    ultimately show "handleResponse env m (Some resp) s = handleResponse env m (Some ?resp) s"
      using a c by (simp add: handleResponse_200 [of resp v])
  next
    assume a: "checkConfig env0 m0 s0 = Inr (m, s1) \<and> PriceWithTax (body resp) = Inr v \<and>
      ToNumber v = Some x \<and> 0 \<le> x"
    then have price: "PriceWithTax (body resp) = Inr v" and n: "ToNumber v = Some x"
      by simp_all
    from a have vf: "validFloors m" by (auto dest: checkConfig_validFloors)
    with a have "fromPriceWithTax (hd m) \<le> x" by (simp add: validFloors_def)
    from priceLoop_from_first_floor [OF vf price n this]
    obtain e where e: "e \<in> set m" "priceLoop m (body resp) (length m) = Inr (Some e)"
      by auto
    from priceLoop_Some [OF price e(2)] n have "fromPriceWithTax e \<le> x"
      by (auto simp: js_ge_def)
    with e(1) handleResponse_found [OF c price e(2), of env s]
    show "\<exists>e\<in>set m. fromPriceWithTax e \<le> x \<and>
           handleResponse env m (Some resp) s =
             Inr (True,
                  s\<lparr>isConnected := True,
                    calls := calls s @
                      (if leds_mode (plugs_ui env) = ''switch''
                       then [PLUGS_UI_SetConfig
                              ((plugs_ui env)
                                 \<lparr>switch0_on := \<lparr>rgb = shellyRGB e, brightness = onBrightness e\<rparr>,
                                  switch0_off := \<lparr>rgb = shellyRGB e, brightness = offBrightness e\<rparr>\<rparr>)]
                       else [])\<rparr>)"
      by blast
  next
    assume "body resp = Primitive Null"
    with c show "handleResponse env m (Some resp) s =
          (if m = [] then Inl (Die ''PPI: price not found in color map, crash.'')
           else Inl TypeError)"
      by (simp add: handleResponse_def Let_def priceLoop_Inl [of _ TypeError])
  }
qed

theorem handleResponse_no_number_witness:
  "handleResponse exampleEnv priceColorMapChecked
     (Some \<lparr>code = 200, body = Object [(''Rank'', Num 3)]\<rparr>) initialState =
     Inl (Die ''PPI: price not found in color map, crash.'') \<and>
   handleResponse exampleEnv priceColorMapChecked (Some (priceResponse Obj)) initialState =
     Inl (Die ''PPI: price not found in color map, crash.'') \<and>
   handleResponse exampleEnv priceColorMapChecked (Some (priceResponse (Str ''n/a'' None)))
       initialState =
     Inl (Die ''PPI: price not found in color map, crash.'') \<and>
   handleResponse exampleEnv priceColorMapChecked (Some (priceResponse (Bool True))) initialState =
     handleResponse exampleEnv priceColorMapChecked
       (Some \<lparr>code = 200, body = Object [(''PriceWithTax'', Num 1)]\<rparr>) initialState \<and>
   (\<exists>e\<in>set priceColorMapChecked. fromPriceWithTax e \<le> 0.05 \<and>
      handleResponse exampleEnv priceColorMapChecked
          (Some (priceResponse (Str ''0.05'' (Some 0.05)))) initialState =
        Inr (True,
             \<lparr>isConnected = True,
              calls = [PLUGS_UI_SetConfig
                         \<lparr>leds_mode = ''switch'',
                          switch0_on = \<lparr>rgb = shellyRGB e, brightness = onBrightness e\<rparr>,
                          switch0_off = \<lparr>rgb = shellyRGB e, brightness = offBrightness e\<rparr>\<rparr>]\<rparr>)) \<and>
   handleResponse exampleEnv priceColorMapChecked
     (Some \<lparr>code = 200, body = Primitive Null\<rparr>) initialState = Inl TypeError"
proof -
  note r = priceResponse_ok
  have ne: "priceColorMapChecked \<noteq> []"
    by (simp add: priceColorMapChecked_def priceColorMap_def)
  have "handleResponse exampleEnv priceColorMapChecked
     (Some \<lparr>code = 200, body = Object [(''Rank'', Num 3)]\<rparr>) initialState =
     Inl (Die ''PPI: price not found in color map, crash.'')"
    using handleResponse_no_number
      [of "\<lparr>code = 200, body = Object [(''Rank'', Num 3)]\<rparr>" Undefined
        exampleEnv priceColorMapChecked initialState "[(''Rank'', Num 3)]"]
    by simp
  moreover
  have "handleResponse exampleEnv priceColorMapChecked (Some (priceResponse Obj)) initialState =
     Inl (Die ''PPI: price not found in color map, crash.'')"
    using handleResponse_no_number
      [of "priceResponse Obj" Obj exampleEnv priceColorMapChecked initialState]
      r [of Obj]
    by simp
  moreover
  have "handleResponse exampleEnv priceColorMapChecked (Some (priceResponse (Str ''n/a'' None)))
       initialState =
     Inl (Die ''PPI: price not found in color map, crash.'')"
    using handleResponse_no_number
      [of "priceResponse (Str ''n/a'' None)" "Str ''n/a'' None" exampleEnv
        priceColorMapChecked initialState]
      r [of "Str ''n/a'' None"]
    by simp
  moreover
  have "handleResponse exampleEnv priceColorMapChecked (Some (priceResponse (Bool True))) initialState =
     handleResponse exampleEnv priceColorMapChecked
       (Some \<lparr>code = 200, body = Object [(''PriceWithTax'', Num 1)]\<rparr>) initialState"
    using handleResponse_no_number
      [of "priceResponse (Bool True)" "Bool True" exampleEnv priceColorMapChecked initialState
        "[]" "''''" 1]
      r [of "Bool True"]
    by (simp add: priceResponse_def)
  moreover
  have "\<exists>e\<in>set priceColorMapChecked. fromPriceWithTax e \<le> 0.05 \<and>
      handleResponse exampleEnv priceColorMapChecked
          (Some (priceResponse (Str ''0.05'' (Some 0.05)))) initialState =
        Inr (True,
             \<lparr>isConnected = True,
              calls = [PLUGS_UI_SetConfig
                         \<lparr>leds_mode = ''switch'',
                          switch0_on = \<lparr>rgb = shellyRGB e, brightness = onBrightness e\<rparr>,
                          switch0_off = \<lparr>rgb = shellyRGB e, brightness = offBrightness e\<rparr>\<rparr>]\<rparr>)"
  proof -
    have "\<exists>e\<in>set priceColorMapChecked. fromPriceWithTax e \<le> 0.05 \<and>
      handleResponse exampleEnv priceColorMapChecked
          (Some (priceResponse (Str ''0.05'' (Some 0.05)))) initialState =
        Inr (True,
             initialState\<lparr>isConnected := True,
               calls := calls initialState @
                 (if leds_mode (plugs_ui exampleEnv) = ''switch''
                  then [PLUGS_UI_SetConfig
                         ((plugs_ui exampleEnv)
                            \<lparr>switch0_on := \<lparr>rgb = shellyRGB e, brightness = onBrightness e\<rparr>,
                             switch0_off := \<lparr>rgb = shellyRGB e, brightness = offBrightness e\<rparr>\<rparr>)]
                  else [])\<rparr>)"
    proof -
      have h: "checkConfig exampleEnv priceColorMap initialState =
            Inr (priceColorMapChecked, initialState) \<and>
          PriceWithTax (body (priceResponse (Str ''0.05'' (Some 0.05)))) =
            Inr (Str ''0.05'' (Some 0.05)) \<and>
          ToNumber (Str ''0.05'' (Some 0.05)) = Some 0.05 \<and> (0::real) \<le> 0.05"
        using r [of "Str ''0.05'' (Some 0.05)"] priceColorMap_checked by simp
      have c: "code (priceResponse (Str ''0.05'' (Some 0.05))) = 200"
        by (rule r)
      from handleResponse_no_number
        [of "priceResponse (Str ''0.05'' (Some 0.05))" "Str ''0.05'' (Some 0.05)" exampleEnv
          priceColorMapChecked initialState "[]" "''0.05''" "0.05"
          exampleEnv priceColorMap initialState initialState]
        c h
      show ?thesis by blast
    qed
    then show ?thesis
      by (simp add: initialState_def exampleEnv_def)
  qed
  moreover
  have "handleResponse exampleEnv priceColorMapChecked
     (Some \<lparr>code = 200, body = Primitive Null\<rparr>) initialState = Inl TypeError"
    using handleResponse_no_number
      [of "\<lparr>code = 200, body = Primitive Null\<rparr>" Undefined
        exampleEnv priceColorMapChecked initialState]
      ne
    by simp
  ultimately show ?thesis by simp
qed

text \<open>
  C9 as stated fails for a \<open>PriceWithTax\<close> that is not a number but converts to one: with
  \<open>{"PriceWithTax": null}\<close> and the accepted \<open>priceColorMap\<close>, \<open>null >= 0.00\<close> is true, the
  entry of floor 0 (green) is written to the light and the handler returns true.
\<close>

theorem handleResponse_null_price_counterexample:
  "checkConfig exampleEnv priceColorMap initialState = Inr (priceColorMapChecked, initialState) \<and>
   handleResponse exampleEnv priceColorMapChecked (Some (priceResponse Null)) initialState =
     Inr (True,
          \<lparr>isConnected = True,
           calls = [PLUGS_UI_SetConfig
                      \<lparr>leds_mode = ''switch'',
                       switch0_on = \<lparr>rgb = Some [0, 50, 0], brightness = 80\<rparr>,
                       switch0_off = \<lparr>rgb = Some [0, 50, 0], brightness = 10\<rparr>\<rparr>]\<rparr>)"
proof -
  have "priceLoop priceColorMapChecked (body (priceResponse Null))
      (length priceColorMapChecked) = Inr (Some (priceColorMapChecked ! 1))"
    by (simp add: priceResponse_def priceColorMapChecked_def priceColorMap_def
        eval_nat_numeral js_ge_def)
  then have "handleResponse exampleEnv priceColorMapChecked (Some (priceResponse Null))
      initialState =
     Inr (True,
          \<lparr>isConnected = True,
           calls = [PLUGS_UI_SetConfig
                      \<lparr>leds_mode = ''switch'',
                       switch0_on = \<lparr>rgb = Some [0, 50, 0], brightness = 80\<rparr>,
                       switch0_off = \<lparr>rgb = Some [0, 50, 0], brightness = 10\<rparr>\<rparr>]\<rparr>)"
    by (simp add: handleResponse_found [OF priceResponse_ok] priceColorMapChecked_def
        priceColorMap_def exampleEnv_def initialState_def)
  with priceColorMap_checked show ?thesis by simp
qed

subsection \<open>The timer gate\<close>

lemma tick_offline: "isConnected s = False \<Longrightarrow> tick env s = Inr (withFetch s)"
  by (simp add: tick_def withFetch_def DEBUG_def)

lemma tick_online:
  "isConnected s \<Longrightarrow>
     tick env s =
       (case isQuarterOfAnHour env of
          Inl e \<Rightarrow> Inl e
        | Inr q \<Rightarrow> Inr (if q then withFetch s else s))"
  by (simp add: tick_def withFetch_def DEBUG_def split: sum.splits)

lemma hexCharToInt_digit: "d < 10 \<Longrightarrow> hexCharToInt (Some (of_char (digit d))) = Inr d"
  by (simp add: hexCharToInt_def digit_def)

lemma isQuarterOfAnHour_clock:
  assumes "mi < 60" and "sys_time env = clock h mi"
  shows "isQuarterOfAnHour env = Inr (mi mod 15 = 0)"
proof -
  from assms(1) have d: "mi div 10 < 10" "mi mod 10 < 10" by simp_all
  have "10 * (mi div 10) + mi mod 10 = mi" by simp
  with assms(2) show ?thesis
    by (simp add: isQuarterOfAnHour_def clock_def slice_def str_at_def Let_def
        hexCharToInt_digit [OF d(1)] hexCharToInt_digit [OF d(2)])
qed

lemma quarter_minutes: "mi < 60 \<Longrightarrow> mi mod 15 = 0 \<longleftrightarrow> mi = 0 \<or> mi = 15 \<or> mi = 30 \<or> mi = (45::nat)"
  by presburger

text \<open>
  C6. With \<open>DEBUG\<close> false and the device's time showing minute \<open>mi\<close>: \<open>tick\<close> issues one
  \<open>HTTP.GET\<close> when the script is not connected or \<open>mi\<close> is a multiple of 15 (0, 15, 30 or
  45), and does nothing otherwise; when not connected it issues the fetch whatever the
  time reads.
\<close>

theorem tick_gate:
  "DEBUG = False \<and>
   (h < 24 \<and> mi < 60 \<and> sys_time env = clock h mi \<longrightarrow>
      tick env s = Inr (if isConnected s = False \<or> mi mod 15 = 0 then withFetch s else s) \<and>
      (mi mod 15 = 0 \<longleftrightarrow> mi = 0 \<or> mi = 15 \<or> mi = 30 \<or> mi = 45)) \<and>
   (isConnected s = False \<longrightarrow> tick env s = Inr (withFetch s)) \<and>
   withFetch s \<noteq> s \<and> fetches (withFetch s) = fetches s + 1"
proof (intro conjI impI)
  show "DEBUG = False" by (simp add: DEBUG_def)
next
  assume a: "h < 24 \<and> mi < 60 \<and> sys_time env = clock h mi"
  then have q: "isQuarterOfAnHour env = Inr (mi mod 15 = 0)"
    by (simp add: isQuarterOfAnHour_clock)
  show "tick env s = Inr (if isConnected s = False \<or> mi mod 15 = 0 then withFetch s else s)"
  proof (cases "isConnected s")
    case True
    then show ?thesis by (simp add: tick_online q)
  next
    case False
    then show ?thesis by (simp add: tick_offline)
  qed
  from a show "mi mod 15 = 0 \<longleftrightarrow> mi = 0 \<or> mi = 15 \<or> mi = 30 \<or> mi = 45"
    by (simp add: quarter_minutes)
next
  assume "isConnected s = False"
  then show "tick env s = Inr (withFetch s)" by (rule tick_offline)
next
  have "calls (withFetch s) \<noteq> calls s" by (simp add: withFetch_def)
  then show "withFetch s \<noteq> s" by auto
next
  show "fetches (withFetch s) = fetches s + 1"
    by (simp add: withFetch_def fetches_def)
qed

theorem tick_gate_witness:
  "tick (exampleEnv\<lparr>sys_time := clock 12 7\<rparr>) onlineState = Inr onlineState \<and>
   tick (exampleEnv\<lparr>sys_time := clock 12 45\<rparr>) onlineState = Inr (withFetch onlineState) \<and>
   tick (exampleEnv\<lparr>sys_time := clock 12 7\<rparr>) initialState = Inr (withFetch initialState) \<and>
   clock 12 7 = ''12:07''"
proof -
  have on: "isConnected onlineState"
    by (simp add: onlineState_def configureLight_def Let_def connected_st_def)
  have off: "isConnected initialState = False"
    by (simp add: initialState_def)
  have c: "clock 12 7 = ''12:07''"
    by code_simp
  have "tick (exampleEnv\<lparr>sys_time := clock 12 7\<rparr>) onlineState = Inr onlineState"
    using tick_gate [of 12 7 "exampleEnv\<lparr>sys_time := clock 12 7\<rparr>" onlineState] on
    by simp
  moreover have "tick (exampleEnv\<lparr>sys_time := clock 12 45\<rparr>) onlineState = Inr (withFetch onlineState)"
    using tick_gate [of 12 45 "exampleEnv\<lparr>sys_time := clock 12 45\<rparr>" onlineState] on
    by simp
  moreover have "tick (exampleEnv\<lparr>sys_time := clock 12 7\<rparr>) initialState = Inr (withFetch initialState)"
    using tick_gate [of 12 7 "exampleEnv\<lparr>sys_time := clock 12 7\<rparr>" initialState] off
    by simp
  ultimately show ?thesis using c by simp
qed

subsection \<open>Going offline\<close>

lemma white_name: "colorNameToRGBString ''white'' = Inr ''#FFFFFF''"
  by code_simp

lemma white_native: "RGBStringToShellyValues ''#FFFFFF'' = Inr [100, 100, 100]"
  by (simp add: RGBStringToShellyValues_def hexToShellyColorValue_def hexToInt_def
      hexCharToInt_def str_at_def slice_def Math_round_def)

lemma disConnected_eq:
  "disConnected env s =
     Inr ((configureLight env (Some [100, 100, 100]) 50 10 s)\<lparr>isConnected := False\<rparr>)"
  by (simp add: disConnected_def white_name white_native)

lemma configureLight_fetches [simp]: "fetches (configureLight env v a b s) = fetches s"
  by (simp add: configureLight_def fetches_def Let_def)

lemma configureLight_isConnected [simp]:
  "isConnected (configureLight env v a b s) = isConnected s"
  by (simp add: configureLight_def Let_def)

lemma fetches_isConnected_update [simp]: "fetches (s\<lparr>isConnected := b\<rparr>) = fetches s"
  by (simp add: fetches_def)

lemma configWrites_withFetch [simp]: "configWrites (withFetch s) = configWrites s"
  by (simp add: configWrites_def withFetch_def)

lemma isConnected_withFetch [simp]: "isConnected (withFetch s) = isConnected s"
  by (simp add: withFetch_def)

lemma fetches_withFetch [simp]: "fetches (withFetch s) = Suc (fetches s)"
  by (simp add: withFetch_def fetches_def)

lemma tick_cases:
  assumes "tick env s = Inr s'"
  shows "s' = s \<or> s' = withFetch s"
proof (cases "isConnected s")
  case True
  with assms show ?thesis
    by (auto simp: tick_online split: sum.splits if_splits)
next
  case False
  with assms show ?thesis by (simp add: tick_offline)
qed

subsection \<open>Events\<close>

lemma handleEvents_connect:
  "connectEvent env i \<Longrightarrow> handleEvents env (Some i) s = tick env s"
  by (cases "tick env s") (auto simp: handleEvents_def connectEvent_def split: if_splits)

lemma handleEvents_disconnect:
  "disconnectEvent i \<Longrightarrow> handleEvents env (Some i) s = disConnected env s"
  by (auto simp: handleEvents_def disconnectEvent_def)

lemma handleEvents_other:
  "\<not> connectEvent env i \<Longrightarrow> \<not> disconnectEvent i \<Longrightarrow> handleEvents env (Some i) s = Inr s"
  by (auto simp: handleEvents_def connectEvent_def disconnectEvent_def
      split: option.splits if_splits)

lemma handleEvents_None: "handleEvents env None s = Inr s"
  by (simp add: handleEvents_def)

lemma connect_not_disconnect: "connectEvent env i \<Longrightarrow> \<not> disconnectEvent i"
  by (auto simp: connectEvent_def disconnectEvent_def split: if_splits)

subsection \<open>Failed fetches\<close>

lemma handleResponse_failed:
  "fetchFailed r \<Longrightarrow> handleResponse env m r s = invalidResponse env s"
  by (auto simp: fetchFailed_def handleResponse_def split: option.splits)

lemma invalidResponse_eq:
  "invalidResponse env s =
    Inr (False, if isConnected s then s
                else (configureLight env (Some [100, 100, 100]) 50 10 s)\<lparr>isConnected := False\<rparr>)"
  by (simp add: invalidResponse_def disConnected_eq)

lemma configWrites_isConnected_update [simp]:
  "configWrites (s\<lparr>isConnected := b\<rparr>) = configWrites s"
  by (simp add: configWrites_def)

text \<open>
  C7. A fetch that fails or returns a status other than 200 while the script is connected
  leaves the whole state as it was: still connected, nothing written to the LED
  configuration. The offline (white) appearance is written by such a fetch only when the
  script is not connected, and by a disconnect event; a tick and any event that is not a
  disconnect write no LED configuration and leave \<open>isConnected\<close> as it is.
\<close>

theorem failed_fetch_keeps_online:
  "(fetchFailed r \<and> isConnected s \<longrightarrow> handleResponse env m r s = Inr (False, s)) \<and>
   (fetchFailed r \<and> isConnected s = False \<longrightarrow>
      handleResponse env m r s =
        Inr (False, (configureLight env (Some [100, 100, 100]) 50 10 s)\<lparr>isConnected := False\<rparr>)) \<and>
   (disconnectEvent i \<longrightarrow>
      handleEvents env (Some i) s =
        Inr ((configureLight env (Some [100, 100, 100]) 50 10 s)\<lparr>isConnected := False\<rparr>)) \<and>
   (\<not> disconnectEvent i \<and> handleEvents env (Some i) s = Inr s' \<longrightarrow>
      configWrites s' = configWrites s \<and> isConnected s' = isConnected s) \<and>
   (tick env s = Inr s'' \<longrightarrow> configWrites s'' = configWrites s \<and> isConnected s'' = isConnected s)"
proof (intro conjI impI)
  assume "fetchFailed r \<and> isConnected s"
  then show "handleResponse env m r s = Inr (False, s)"
    by (simp add: handleResponse_failed invalidResponse_eq)
next
  assume "fetchFailed r \<and> isConnected s = False"
  then show "handleResponse env m r s =
        Inr (False, (configureLight env (Some [100, 100, 100]) 50 10 s)\<lparr>isConnected := False\<rparr>)"
    by (simp add: handleResponse_failed invalidResponse_eq)
next
  assume "disconnectEvent i"
  then show "handleEvents env (Some i) s =
        Inr ((configureLight env (Some [100, 100, 100]) 50 10 s)\<lparr>isConnected := False\<rparr>)"
    by (simp add: handleEvents_disconnect disConnected_eq)
next
  assume a: "\<not> disconnectEvent i \<and> handleEvents env (Some i) s = Inr s'"
  have "s' = s \<or> s' = withFetch s"
  proof (cases "connectEvent env i")
    case True
    with a have "tick env s = Inr s'" by (simp add: handleEvents_connect)
    then show ?thesis by (rule tick_cases)
  next
    case False
    with a show ?thesis using handleEvents_other [of env i s] by simp
  qed
  then show "configWrites s' = configWrites s" and "isConnected s' = isConnected s"
    by auto
next
  assume "tick env s = Inr s''"
  then have "s'' = s \<or> s'' = withFetch s" by (rule tick_cases)
  then show "configWrites s'' = configWrites s" and "isConnected s'' = isConnected s"
    by auto
qed

theorem failed_fetch_keeps_online_witness:
  "isConnected onlineState \<and>
   handleResponse exampleEnv priceColorMapChecked None onlineState = Inr (False, onlineState) \<and>
   handleResponse exampleEnv priceColorMapChecked
     (Some \<lparr>code = 503, body = ParseFailure\<rparr>) onlineState = Inr (False, onlineState) \<and>
   handleResponse exampleEnv priceColorMapChecked None initialState =
     Inr (False, (configureLight exampleEnv (Some [100, 100, 100]) 50 10 initialState)
                   \<lparr>isConnected := False\<rparr>)"
proof -
  have on: "isConnected onlineState"
    by (simp add: onlineState_def connected_st_def)
  have off: "isConnected initialState = False"
    by (simp add: initialState_def)
  have f: "fetchFailed None" "fetchFailed (Some \<lparr>code = 503, body = ParseFailure\<rparr>)"
    by (simp_all add: fetchFailed_def)
  have "handleResponse exampleEnv priceColorMapChecked None onlineState = Inr (False, onlineState)"
    using failed_fetch_keeps_online [of None onlineState exampleEnv priceColorMapChecked] on f
    by simp
  moreover
  have "handleResponse exampleEnv priceColorMapChecked
     (Some \<lparr>code = 503, body = ParseFailure\<rparr>) onlineState = Inr (False, onlineState)"
    using failed_fetch_keeps_online
      [of "Some \<lparr>code = 503, body = ParseFailure\<rparr>" onlineState exampleEnv priceColorMapChecked]
      on f
    by simp
  moreover
  have "handleResponse exampleEnv priceColorMapChecked None initialState =
     Inr (False, (configureLight exampleEnv (Some [100, 100, 100]) 50 10 initialState)
                   \<lparr>isConnected := False\<rparr>)"
    using failed_fetch_keeps_online [of None initialState exampleEnv priceColorMapChecked] off f
    by simp
  ultimately show ?thesis using on by simp
qed

subsection \<open>Connect events\<close>

lemma startup_example:
  "startup exampleEnv priceColorMap = Inr (priceColorMapChecked, startState)"
proof -
  have "tick exampleEnv ((configureLight exampleEnv (Some [100, 100, 100]) 50 10 initialState)
                 \<lparr>isConnected := False\<rparr>) = Inr startState"
    by (simp add: tick_offline startState_def)
  then show ?thesis
    by (simp add: startup_def priceColorMap_checked [unfolded initialState_def]
        disConnected_eq initialState_def)
qed

lemma fetches_startState: "fetches startState = 1"
  by (simp add: startState_def initialState_def fetches_def [of "\<lparr>isConnected = False, calls = []\<rparr>"])

lemma reachable_start: "reachable priceColorMapChecked \<lparr>st = startState, completed = 0\<rparr>"
  using startup_example by (rule reachable.top)

lemma reachable_online: "reachable priceColorMapChecked \<lparr>st = onlineState, completed = 1\<rparr>"
proof -
  have "isConnected startState = False"
    by (simp add: startState_def)
  moreover have "priceLoop priceColorMapChecked (body (priceResponse (Num 0.05)))
      (length priceColorMapChecked) = Inr (Some (priceColorMapChecked ! 1))"
    by (simp add: priceResponse_def priceColorMapChecked_def priceColorMap_def
        eval_nat_numeral)
  ultimately have "handleResponse exampleEnv priceColorMapChecked
      (Some (priceResponse (Num 0.05))) startState = Inr (True, onlineState)"
    by (simp add: handleResponse_200 [OF priceResponse_ok] priceColorMapChecked_def
        priceColorMap_def onlineState_def)
  then have "step priceColorMapChecked exampleEnv (FetchDone (Some (priceResponse (Num 0.05))))
      \<lparr>st = startState, completed = 0\<rparr> = Inr \<lparr>st = onlineState, completed = 1\<rparr>"
    by (simp add: step_def in_flight_def fetches_startState)
  with reachable_start show ?thesis by (rule reachable.callback)
qed

text \<open>
  C8, as the code has it. A connect event (the cloud's \<open>connected\<close> when the cloud is
  enabled, the wifi's \<open>sta_ip_acquired\<close> otherwise) runs \<open>tick()\<close> and nothing else: when
  the script is not connected a fetch is issued at once, whatever the minute; when it is
  connected the fetch is issued only at a minute that is a multiple of 15.
\<close>

theorem connect_event_runs_tick:
  "connectEvent env i \<longrightarrow>
     handleEvents env (Some i) s = tick env s \<and>
     (isConnected s = False \<longrightarrow> handleEvents env (Some i) s = Inr (withFetch s)) \<and>
     (isConnected s \<and> h < 24 \<and> mi < 60 \<and> sys_time env = clock h mi \<longrightarrow>
        handleEvents env (Some i) s = Inr (if mi mod 15 = 0 then withFetch s else s))"
proof (intro impI conjI)
  assume c: "connectEvent env i"
  then show t: "handleEvents env (Some i) s = tick env s"
    by (rule handleEvents_connect)
  {
    assume "isConnected s = False"
    with t show "handleEvents env (Some i) s = Inr (withFetch s)"
      by (simp add: tick_offline)
  next
    assume a: "isConnected s \<and> h < 24 \<and> mi < 60 \<and> sys_time env = clock h mi"
    then have q: "isQuarterOfAnHour env = Inr (mi mod 15 = 0)"
      by (simp add: isQuarterOfAnHour_clock)
    from a have "tick env s = Inr (if mi mod 15 = 0 then withFetch s else s)"
      by (simp add: tick_online q)
    with t show "handleEvents env (Some i) s = Inr (if mi mod 15 = 0 then withFetch s else s)"
      by simp
  }
qed

theorem connect_event_runs_tick_witness:
  "connectEvent exampleEnv cloudConnected \<and>
   handleEvents exampleEnv (Some cloudConnected) startState = Inr (withFetch startState) \<and>
   handleEvents (exampleEnv\<lparr>sys_time := clock 12 30\<rparr>) (Some cloudConnected) onlineState =
     Inr (withFetch onlineState)"
proof -
  have c: "connectEvent exampleEnv cloudConnected"
      "connectEvent (exampleEnv\<lparr>sys_time := clock 12 30\<rparr>) cloudConnected"
    by (simp_all add: connectEvent_def cloudConnected_def exampleEnv_def)
  have off: "isConnected startState = False"
    by (simp add: startState_def)
  have on: "isConnected onlineState"
    by (simp add: onlineState_def connected_st_def)
  have "handleEvents exampleEnv (Some cloudConnected) startState = Inr (withFetch startState)"
    using connect_event_runs_tick [of exampleEnv cloudConnected startState 12 7] c off
    by (simp add: tick_offline)
  moreover
  have q: "isConnected onlineState \<and> (12::nat) < 24 \<and> (30::nat) < 60 \<and>
      sys_time (exampleEnv\<lparr>sys_time := clock 12 30\<rparr>) = clock 12 30"
    using on by simp
  have "handleEvents (exampleEnv\<lparr>sys_time := clock 12 30\<rparr>) (Some cloudConnected) onlineState =
     Inr (if (30::nat) mod 15 = 0 then withFetch onlineState else onlineState)"
    using connect_event_runs_tick
      [of "exampleEnv\<lparr>sys_time := clock 12 30\<rparr>" cloudConnected onlineState 12 30] c(2) q
    by blast
  then have "handleEvents (exampleEnv\<lparr>sys_time := clock 12 30\<rparr>) (Some cloudConnected) onlineState =
     Inr (withFetch onlineState)"
    by simp
  ultimately show ?thesis using c by simp
qed

text \<open>
  C8 as stated fails when the script is connected and the minute is no multiple of 15:
  after the first fetch has succeeded the script is connected, and the cloud's
  \<open>connected\<close> event at 12:07 leaves the state as it is, with no fetch issued.
\<close>

theorem connect_event_online_counterexample:
  "reachable priceColorMapChecked \<lparr>st = onlineState, completed = 1\<rparr> \<and>
   isConnected onlineState \<and>
   sys_time exampleEnv = ''12:07'' \<and>
   connectEvent exampleEnv cloudConnected \<and>
   handleEvents exampleEnv (Some cloudConnected) onlineState = Inr onlineState \<and>
   step priceColorMapChecked exampleEnv (Notification (Some cloudConnected))
     \<lparr>st = onlineState, completed = 1\<rparr> = Inr \<lparr>st = onlineState, completed = 1\<rparr>"
proof -
  have c: "connectEvent exampleEnv cloudConnected"
    by (simp add: connectEvent_def cloudConnected_def exampleEnv_def)
  have on: "isConnected onlineState"
    by (simp add: onlineState_def connected_st_def)
  have t: "sys_time exampleEnv = ''12:07''"
    by (simp add: exampleEnv_def)
  have "isQuarterOfAnHour exampleEnv = Inr False"
    by (simp add: isQuarterOfAnHour_def exampleEnv_def slice_def str_at_def hexCharToInt_def)
  with on have "tick exampleEnv onlineState = Inr onlineState"
    by (simp add: tick_online)
  with c have h: "handleEvents exampleEnv (Some cloudConnected) onlineState = Inr onlineState"
    by (simp add: handleEvents_connect)
  then have "step priceColorMapChecked exampleEnv (Notification (Some cloudConnected))
     \<lparr>st = onlineState, completed = 1\<rparr> = Inr \<lparr>st = onlineState, completed = 1\<rparr>"
    by (simp add: step_def)
  with reachable_online c on t h show ?thesis by simp
qed

subsection \<open>Fetches in flight\<close>

lemma handleResponse_fetches:
  assumes "handleResponse env m r s = Inr (b, s')"
  shows "fetches s' = fetches s"
proof (cases "fetchFailed r")
  case True
  with assms show ?thesis
    by (auto simp: handleResponse_failed invalidResponse_eq split: if_splits)
next
  case False
  then obtain resp where r: "r = Some resp" "code resp = 200"
    by (auto simp: fetchFailed_def split: option.splits)
  with assms show ?thesis
    by (auto simp: handleResponse_def Let_def connected_st_def
        split: sum.splits option.splits if_splits)
qed

lemma handleEvents_fetches:
  assumes "handleEvents env ev s = Inr s'"
  shows "fetches s' \<le> fetches s + 1"
proof (cases ev)
  case None
  with assms show ?thesis by (simp add: handleEvents_None)
next
  case (Some i)
  show ?thesis
  proof (cases "connectEvent env i")
    case True
    with assms Some have "tick env s = Inr s'" by (simp add: handleEvents_connect)
    then have "s' = s \<or> s' = withFetch s" by (rule tick_cases)
    then show ?thesis by auto
  next
    case False
    show ?thesis
    proof (cases "disconnectEvent i")
      case True
      with assms Some show ?thesis
        by (auto simp: handleEvents_disconnect disConnected_eq)
    next
      case d: False
      with assms Some False show ?thesis
        using handleEvents_other [of env i s] by simp
    qed
  qed
qed

lemma step_in_flight:
  assumes "step m env inp c = Inr c'"
  shows "in_flight c' \<le> in_flight c + 1"
proof (cases inp)
  case TimerTick
  with assms obtain s' where s': "tick env (st c) = Inr s'" "c' = c\<lparr>st := s'\<rparr>"
    by (auto simp: step_def split: sum.splits)
  from tick_cases [OF s'(1)] s'(2) show ?thesis
    by (auto simp: in_flight_def)
next
  case (Notification ev)
  with assms obtain s' where s': "handleEvents env ev (st c) = Inr s'" "c' = c\<lparr>st := s'\<rparr>"
    by (auto simp: step_def split: sum.splits)
  from handleEvents_fetches [OF s'(1)] s'(2) show ?thesis
    by (simp add: in_flight_def)
next
  case (FetchDone r)
  show ?thesis
  proof (cases "in_flight c = 0")
    case True
    with assms FetchDone show ?thesis by (simp add: step_def)
  next
    case False
    with assms FetchDone obtain b s' where
      s': "handleResponse env m r (st c) = Inr (b, s')" "c' = \<lparr>st = s', completed = completed c + 1\<rparr>"
      by (auto simp: step_def split: sum.splits)
    from handleResponse_fetches [OF s'(1)] s'(2) show ?thesis
      by (simp add: in_flight_def)
  qed
qed

text \<open>
  C5, as the code has it. The script keeps no record of a fetch in flight. One callback
  raises the number of fetches in flight by at most one; but a timer tick, or a connect
  event, that arrives while a fetch is in flight issues a further fetch whenever the gate
  of \<open>tick\<close> is open (the script is not connected, or the minute is a multiple of 15), so
  that the number in flight grows by one.
\<close>

theorem no_in_flight_guard:
  "(step m env inp c = Inr c' \<longrightarrow> in_flight c' \<le> in_flight c + 1) \<and>
   (0 < in_flight c \<and> (isConnected (st c) = False \<or> isQuarterOfAnHour env = Inr True) \<longrightarrow>
      step m env TimerTick c = Inr (c\<lparr>st := withFetch (st c)\<rparr>) \<and>
      in_flight (c\<lparr>st := withFetch (st c)\<rparr>) = in_flight c + 1) \<and>
   (0 < in_flight c \<and> connectEvent env i \<and>
    (isConnected (st c) = False \<or> isQuarterOfAnHour env = Inr True) \<longrightarrow>
      step m env (Notification (Some i)) c = Inr (c\<lparr>st := withFetch (st c)\<rparr>))"
proof (intro conjI impI)
  assume "step m env inp c = Inr c'"
  then show "in_flight c' \<le> in_flight c + 1" by (rule step_in_flight)
next
  assume a: "0 < in_flight c \<and> (isConnected (st c) = False \<or> isQuarterOfAnHour env = Inr True)"
  then have "tick env (st c) = Inr (withFetch (st c))"
    by (cases "isConnected (st c)") (auto simp: tick_online tick_offline)
  then show "step m env TimerTick c = Inr (c\<lparr>st := withFetch (st c)\<rparr>)"
    by (simp add: step_def)
  from a have "completed c < fetches (st c)"
    by (simp add: in_flight_def)
  then show "in_flight (c\<lparr>st := withFetch (st c)\<rparr>) = in_flight c + 1"
    by (simp add: in_flight_def Suc_diff_le)
next
  assume a: "0 < in_flight c \<and> connectEvent env i \<and>
    (isConnected (st c) = False \<or> isQuarterOfAnHour env = Inr True)"
  then have "tick env (st c) = Inr (withFetch (st c))"
    by (cases "isConnected (st c)") (auto simp: tick_online tick_offline)
  with a show "step m env (Notification (Some i)) c = Inr (c\<lparr>st := withFetch (st c)\<rparr>)"
    by (simp add: step_def handleEvents_connect)
qed

theorem no_in_flight_guard_witness:
  "in_flight \<lparr>st = startState, completed = 0\<rparr> = 1 \<and>
   step priceColorMapChecked exampleEnv TimerTick \<lparr>st = startState, completed = 0\<rparr> =
     Inr \<lparr>st = withFetch startState, completed = 0\<rparr> \<and>
   in_flight \<lparr>st = withFetch startState, completed = 0\<rparr> = 2"
proof -
  have i: "in_flight \<lparr>st = startState, completed = 0\<rparr> = 1"
    by (simp add: in_flight_def fetches_startState)
  have off: "isConnected startState = False"
    by (simp add: startState_def)
  from i off show ?thesis
    using no_in_flight_guard
      [of priceColorMapChecked exampleEnv TimerTick "\<lparr>st = startState, completed = 0\<rparr>"
        "\<lparr>st = withFetch startState, completed = 0\<rparr>" cloudConnected]
    by simp
qed

text \<open>
  C5 as stated fails in the state the top level of the script leaves, which has one fetch
  in flight and the script not connected: the cloud's \<open>connected\<close> event, arriving before
  that fetch completes, issues a second fetch, and a timer tick after it a third.
\<close>

theorem second_fetch_counterexample:
  "reachable priceColorMapChecked \<lparr>st = startState, completed = 0\<rparr> \<and>
   in_flight \<lparr>st = startState, completed = 0\<rparr> = 1 \<and>
   run priceColorMapChecked
     [(exampleEnv, Notification (Some cloudConnected)), (exampleEnv, TimerTick)]
     \<lparr>st = startState, completed = 0\<rparr> =
       Inr \<lparr>st = withFetch (withFetch startState), completed = 0\<rparr> \<and>
   in_flight \<lparr>st = withFetch startState, completed = 0\<rparr> = 2 \<and>
   in_flight \<lparr>st = withFetch (withFetch startState), completed = 0\<rparr> = 3"
proof -
  have off: "isConnected startState = False"
    by (simp add: startState_def)
  have c: "connectEvent exampleEnv cloudConnected"
    by (simp add: connectEvent_def cloudConnected_def exampleEnv_def)
  have 1: "step priceColorMapChecked exampleEnv (Notification (Some cloudConnected))
      \<lparr>st = startState, completed = 0\<rparr> = Inr \<lparr>st = withFetch startState, completed = 0\<rparr>"
    using off c by (simp add: step_def handleEvents_connect tick_offline)
  have 2: "step priceColorMapChecked exampleEnv TimerTick
      \<lparr>st = withFetch startState, completed = 0\<rparr> =
        Inr \<lparr>st = withFetch (withFetch startState), completed = 0\<rparr>"
    using off by (simp add: step_def tick_offline)
  from 1 2 have "run priceColorMapChecked
     [(exampleEnv, Notification (Some cloudConnected)), (exampleEnv, TimerTick)]
     \<lparr>st = startState, completed = 0\<rparr> =
       Inr \<lparr>st = withFetch (withFetch startState), completed = 0\<rparr>"
    by simp
  with reachable_start show ?thesis
    by (simp add: in_flight_def fetches_startState)
qed

end
